theory Spec2Isabelle
  imports Complex_Main "HOL-Library.Sublist" "HOL-Library.AList"
    "HOL-Library.Char_ord" "HOL-Library.List_Lexorder" "HOL-Library.Multiset"
begin

section \<open>Go strings and the standard-library functions the program calls\<close>

text \<open>
  A Go string is a sequence of bytes; \<^typ>\<open>string\<close> (a list of 8-bit characters) is
  exactly that. The functions of this section belong to Go's standard library, not to
  the repository; each is written after the library's documented behaviour, for
  the arguments the program passes.
\<close>

text \<open>\<^verbatim>\<open>strings.TrimSuffix(s, suffix)\<close>: \<open>s\<close> without the trailing \<open>suffix\<close>, once, when
  \<open>s\<close> ends with it; \<open>s\<close> unchanged otherwise.\<close>

definition TrimSuffix :: "string \<Rightarrow> string \<Rightarrow> string" where
  "TrimSuffix s suf = (if suffix suf s then take (length s - length suf) s else s)"

text \<open>\<^verbatim>\<open>strings.Split(s, sep)\<close> for a separator of one byte (the program only splits
  on \<open>","\<close>): the pieces between the occurrences of the separator; never the empty list,
  the empty string gives one empty piece.\<close>

fun Split :: "string \<Rightarrow> char \<Rightarrow> string list" where
  "Split [] sep = [[]]"
| "Split (c # cs) sep =
     (if c = sep then [] # Split cs sep
      else (case Split cs sep of p # ps \<Rightarrow> (c # p) # ps | [] \<Rightarrow> [[c]]))"

text \<open>\<^verbatim>\<open>strings.Join(elems, sep)\<close>.\<close>

fun Join :: "string list \<Rightarrow> string \<Rightarrow> string" where
  "Join [] sep = []"
| "Join [x] sep = x"
| "Join (x # y # ys) sep = x @ sep @ Join (y # ys) sep"

text \<open>\<^verbatim>\<open>unicode.IsSpace\<close> accepts the six ASCII white-space characters and the code
  points U+0085, U+00A0, U+1680, U+2000 to U+200A, U+2028, U+2029, U+202F, U+205F and
  U+3000. \<open>spaceRunes\<close> lists their UTF-8 encodings: a string starts (ends) with a
  white-space rune exactly when it starts (ends) with one of these byte sequences.\<close>

definition spaceRunes :: "string list" where
  "spaceRunes =
     [[CHR 0x09], [CHR 0x0A], [CHR 0x0B], [CHR 0x0C], [CHR 0x0D], [CHR 0x20],
      [CHR 0xC2, CHR 0x85], [CHR 0xC2, CHR 0xA0],
      [CHR 0xE1, CHR 0x9A, CHR 0x80],
      [CHR 0xE2, CHR 0x80, CHR 0x80], [CHR 0xE2, CHR 0x80, CHR 0x81],
      [CHR 0xE2, CHR 0x80, CHR 0x82], [CHR 0xE2, CHR 0x80, CHR 0x83],
      [CHR 0xE2, CHR 0x80, CHR 0x84], [CHR 0xE2, CHR 0x80, CHR 0x85],
      [CHR 0xE2, CHR 0x80, CHR 0x86], [CHR 0xE2, CHR 0x80, CHR 0x87],
      [CHR 0xE2, CHR 0x80, CHR 0x88], [CHR 0xE2, CHR 0x80, CHR 0x89],
      [CHR 0xE2, CHR 0x80, CHR 0x8A],
      [CHR 0xE2, CHR 0x80, CHR 0xA8], [CHR 0xE2, CHR 0x80, CHR 0xA9],
      [CHR 0xE2, CHR 0x80, CHR 0xAF], [CHR 0xE2, CHR 0x81, CHR 0x9F],
      [CHR 0xE3, CHR 0x80, CHR 0x80]]"

text \<open>The white-space rune a string starts with, if any.\<close>

definition leadingSpace :: "string \<Rightarrow> string option" where
  "leadingSpace s = List.find (\<lambda>p. prefix p s) spaceRunes"

text \<open>The white-space rune a string ends with, if any.\<close>

definition trailingSpace :: "string \<Rightarrow> string option" where
  "trailingSpace s = List.find (\<lambda>p. suffix p s) spaceRunes"

lemma spaceRunes_nonempty: "p \<in> set spaceRunes \<Longrightarrow> p \<noteq> []"
  by (auto simp: spaceRunes_def)

lemma find_SomeD: "List.find P xs = Some x \<Longrightarrow> P x \<and> x \<in> set xs"
  by (induction xs) (auto split: if_splits)

lemma leadingSpace_Some: "leadingSpace s = Some p \<Longrightarrow> p \<noteq> [] \<and> prefix p s"
proof -
  assume "leadingSpace s = Some p"
  then have "prefix p s \<and> p \<in> set spaceRunes"
    unfolding leadingSpace_def by (rule find_SomeD)
  then show ?thesis using spaceRunes_nonempty by blast
qed

lemma trailingSpace_Some: "trailingSpace s = Some p \<Longrightarrow> p \<noteq> [] \<and> suffix p s"
proof -
  assume "trailingSpace s = Some p"
  then have "suffix p s \<and> p \<in> set spaceRunes"
    unfolding trailingSpace_def by (rule find_SomeD)
  then show ?thesis using spaceRunes_nonempty by blast
qed

text \<open>\<^verbatim>\<open>strings.TrimLeftFunc(s, unicode.IsSpace)\<close>.\<close>

function TrimLeftSpace :: "string \<Rightarrow> string" where
  "TrimLeftSpace s =
     (case leadingSpace s of None \<Rightarrow> s | Some p \<Rightarrow> TrimLeftSpace (drop (length p) s))"
  by pat_completeness auto
termination
proof (relation "measure length")
  show "wf (measure length)" by simp
next
  fix s p assume "leadingSpace s = Some p"
  then have "p \<noteq> []" "prefix p s" using leadingSpace_Some by blast+
  then have "length p \<le> length s" "0 < length p" by (auto simp: prefix_length_le)
  then have "length s - length p < length s" by linarith
  then show "(drop (length p) s, s) \<in> measure length" by simp
qed

text \<open>\<^verbatim>\<open>strings.TrimRightFunc(s, unicode.IsSpace)\<close>.\<close>

function TrimRightSpace :: "string \<Rightarrow> string" where
  "TrimRightSpace s =
     (case trailingSpace s of None \<Rightarrow> s
      | Some p \<Rightarrow> TrimRightSpace (take (length s - length p) s))"
  by pat_completeness auto
termination
proof (relation "measure length")
  show "wf (measure length)" by simp
next
  fix s p assume "trailingSpace s = Some p"
  then have "p \<noteq> []" "suffix p s" using trailingSpace_Some by blast+
  then have "length p \<le> length s" "0 < length p" by (auto simp: suffix_length_le)
  then have "length s - length p < length s" by linarith
  then show "(take (length s - length p) s, s) \<in> measure length" by simp
qed

text \<open>\<^verbatim>\<open>strings.TrimSpace(s)\<close>: all leading and trailing white space removed.\<close>

definition TrimSpace :: "string \<Rightarrow> string" where
  "TrimSpace s = TrimRightSpace (TrimLeftSpace s)"

text \<open>\<^verbatim>\<open>strconv.Itoa\<close>: the decimal digits of an integer, with a minus sign when it is
  negative.\<close>

definition digit :: "nat \<Rightarrow> char" where
  "digit d = char_of (of_char (CHR ''0'') + d)"

fun utoa :: "nat \<Rightarrow> string" where
  "utoa n = (if n < 10 then [digit n] else utoa (n div 10) @ [digit (n mod 10)])"

definition Itoa :: "int \<Rightarrow> string" where
  "Itoa i = (if i < 0 then CHR ''-'' # utoa (nat (- i)) else utoa (nat i))"

section \<open>net/url: query values and their encoding\<close>

text \<open>\<^verbatim>\<open>url.Values\<close> is a Go map from a key to a list of values. It is kept here as an
  association list with one entry for each key; the order of the entries has no
  meaning, since \<open>Encode\<close> sorts the keys.\<close>

type_synonym Values = "(string \<times> string list) list"

text \<open>\<^verbatim>\<open>Values.Set(key, value)\<close> replaces whatever the key held by the single value.\<close>

definition Values_Set :: "string \<Rightarrow> string \<Rightarrow> Values \<Rightarrow> Values" where
  "Values_Set key val v = AList.update key [val] v"

definition isAlnum :: "char \<Rightarrow> bool" where
  "isAlnum c \<longleftrightarrow> (CHR ''a'' \<le> c \<and> c \<le> CHR ''z'') \<or> (CHR ''A'' \<le> c \<and> c \<le> CHR ''Z'')
     \<or> (CHR ''0'' \<le> c \<and> c \<le> CHR ''9'')"

text \<open>\<^verbatim>\<open>shouldEscape(c, encodeQueryComponent)\<close>: only the unreserved characters of
  RFC 3986 are left as they are.\<close>

definition shouldEscape :: "char \<Rightarrow> bool" where
  "shouldEscape c \<longleftrightarrow> \<not> (isAlnum c \<or> c \<in> set ''-_.~'')"

definition upperhex :: "nat \<Rightarrow> char" where
  "upperhex n = ''0123456789ABCDEF'' ! n"

text \<open>\<^verbatim>\<open>url.QueryEscape\<close>: a space becomes \<open>+\<close>, every other byte that must be
  escaped becomes \<open>%XX\<close>.\<close>

fun QueryEscape :: "string \<Rightarrow> string" where
  "QueryEscape [] = []"
| "QueryEscape (c # cs) =
     (if c = CHR '' '' then CHR ''+'' # QueryEscape cs
      else if shouldEscape c
        then CHR ''%'' # upperhex (of_char c div 16) # upperhex (of_char c mod 16) # QueryEscape cs
      else c # QueryEscape cs)"

text \<open>One \<open>key=value\<close> pair of an encoded query.\<close>

definition encodePair :: "string \<Rightarrow> string \<Rightarrow> string" where
  "encodePair k x = QueryEscape k @ ''='' @ QueryEscape x"

text \<open>\<^verbatim>\<open>Values.Encode()\<close> runs through the keys in sorted order (bytewise) and writes
  a pair \<open>key=value\<close> for each value of each key, with \<open>&\<close> before every pair but the
  first. \<open>encodedPairs\<close> is the list of the pairs it writes.\<close>

definition encodedPairs :: "Values \<Rightarrow> string list" where
  "encodedPairs v = concat (map (\<lambda>(k, vs). map (encodePair k) vs) (sort_key fst v))"

definition Values_Encode :: "Values \<Rightarrow> string" where
  "Values_Encode v = Join (encodedPairs v) ''&''"

section \<open>Dynamic values and encoding/json\<close>

text \<open>A \<^verbatim>\<open>float64\<close>: a finite value is given by the rational number it stands for
  (every finite \<^verbatim>\<open>float64\<close> is one), beside negative zero, the two infinities and
  not-a-number.\<close>

datatype float64 = Finite rat | NegZero | PosInf | NegInf | NaN

definition isZero :: "float64 \<Rightarrow> bool" where
  "isZero f \<longleftrightarrow> f = Finite 0 \<or> f = NegZero"

text \<open>The fraction of a number discarded (truncation towards zero).\<close>

definition truncRat :: "rat \<Rightarrow> int" where
  "truncRat r = (if r < 0 then - \<lfloor>- r\<rfloor> else \<lfloor>r\<rfloor>)"

definition fitsInt :: "int \<Rightarrow> bool" where
  "fitsInt i \<longleftrightarrow> - (2 ^ 63) \<le> i \<and> i < 2 ^ 63"

text \<open>The conversion \<^verbatim>\<open>int(f)\<close> of a \<^verbatim>\<open>float64\<close> to the 64-bit \<^verbatim>\<open>int\<close>: the fraction
  is discarded. When the result does not fit the type, Go leaves the value
  to the implementation: \<open>oor\<close> stands for that choice.\<close>

definition intOfFloat64 :: "(float64 \<Rightarrow> int) \<Rightarrow> float64 \<Rightarrow> int" where
  "intOfFloat64 oor f =
     (case f of
        Finite r \<Rightarrow> if fitsInt (truncRat r) then truncRat r else oor f
      | NegZero \<Rightarrow> 0
      | _ \<Rightarrow> oor f)"

text \<open>A value of type \<^verbatim>\<open>interface{}\<close>, with the dynamic types the program meets: what
  \<^verbatim>\<open>encoding/json\<close> decodes (nil, bool, float64, string, slice, map), an \<^verbatim>\<open>int\<close>, and
  a struct as the list of the JSON fields it is encoded with, in the order of
  declaration.\<close>

datatype iface =
    VNil
  | VBool bool
  | VInt int
  | VFloat float64
  | VString string
  | VSlice "iface list"
  | VMap "(string \<times> iface) list"
  | VStruct "(string \<times> iface) list"

text \<open>The type assertions \<^verbatim>\<open>v.(string)\<close> and \<^verbatim>\<open>v.(float64)\<close> on the result of a map
  lookup: \<open>None\<close> is \<^verbatim>\<open>ok == false\<close> (key absent, or a value of another type).\<close>

definition asString :: "iface option \<Rightarrow> string option" where
  "asString v = (case v of Some (VString s) \<Rightarrow> Some s | _ \<Rightarrow> None)"

definition asFloat64 :: "iface option \<Rightarrow> float64 option" where
  "asFloat64 v = (case v of Some (VFloat f) \<Rightarrow> Some f | _ \<Rightarrow> None)"

text \<open>The characters \<^verbatim>\<open>encoding/json\<close> copies into a string as they are, with HTML
  escaping on (the default of \<^verbatim>\<open>Marshal\<close>): the printable ASCII characters but the
  double quote, the backslash, \<open><\<close>, \<open>>\<close> and \<open>&\<close>.\<close>

definition htmlSafe :: "char \<Rightarrow> bool" where
  "htmlSafe c \<longleftrightarrow> 0x20 \<le> (of_char c :: nat) \<and> (of_char c :: nat) < 0x80
     \<and> c \<notin> {CHR 0x22, CHR 0x5C, CHR ''<'', CHR ''>'', CHR ''&''}"

definition hex :: "nat \<Rightarrow> char" where
  "hex n = ''0123456789abcdef'' ! n"

text \<open>The escape sequence of an ASCII character that is not copied.\<close>

definition escapeByte :: "char \<Rightarrow> string" where
  "escapeByte c =
     (if c = CHR 0x5C \<or> c = CHR 0x22 then [CHR 0x5C, c]
      else if c = CHR 0x08 then [CHR 0x5C, CHR ''b'']
      else if c = CHR 0x0C then [CHR 0x5C, CHR ''f'']
      else if c = CHR 0x0A then [CHR 0x5C, CHR ''n'']
      else if c = CHR 0x0D then [CHR 0x5C, CHR ''r'']
      else if c = CHR 0x09 then [CHR 0x5C, CHR ''t'']
      else [CHR 0x5C, CHR ''u'', CHR ''0'', CHR ''0'', hex (of_char c div 16), hex (of_char c mod 16)])"

definition inRange :: "nat \<Rightarrow> nat \<Rightarrow> char \<Rightarrow> bool" where
  "inRange lo hi c \<longleftrightarrow> lo \<le> of_char c \<and> of_char c \<le> hi"

text \<open>\<open>accept lo hi n r\<close>: the bytes \<open>r\<close> after the first byte of a rune start with a
  byte between \<open>lo\<close> and \<open>hi\<close> followed by \<open>n\<close> continuation bytes.\<close>

definition accept :: "nat \<Rightarrow> nat \<Rightarrow> nat \<Rightarrow> string \<Rightarrow> bool" where
  "accept lo hi n r =
     (case r of [] \<Rightarrow> False
      | b # r' \<Rightarrow> inRange lo hi b \<and> n \<le> length r' \<and> list_all (inRange 0x80 0xBF) (take n r'))"

text \<open>The size \<^verbatim>\<open>utf8.DecodeRuneInString\<close> gives for a string, when it starts with a
  well-formed UTF-8 sequence, and 0 when it does not (Go then reports
  \<^verbatim>\<open>RuneError\<close> with size 1).\<close>

definition runeLen :: "string \<Rightarrow> nat" where
  "runeLen s =
     (case s of [] \<Rightarrow> 0
      | a # r \<Rightarrow>
          let x = (of_char a :: nat) in
          if x < 0x80 then 1
          else if 0xC2 \<le> x \<and> x \<le> 0xDF then (if accept 0x80 0xBF 0 r then 2 else 0)
          else if x = 0xE0 then (if accept 0xA0 0xBF 1 r then 3 else 0)
          else if 0xE1 \<le> x \<and> x \<le> 0xEC then (if accept 0x80 0xBF 1 r then 3 else 0)
          else if x = 0xED then (if accept 0x80 0x9F 1 r then 3 else 0)
          else if 0xEE \<le> x \<and> x \<le> 0xEF then (if accept 0x80 0xBF 1 r then 3 else 0)
          else if x = 0xF0 then (if accept 0x90 0xBF 2 r then 4 else 0)
          else if 0xF1 \<le> x \<and> x \<le> 0xF3 then (if accept 0x80 0xBF 2 r then 4 else 0)
          else if x = 0xF4 then (if accept 0x80 0x8F 2 r then 4 else 0)
          else 0)"

text \<open>The inside of a JSON string literal, as \<^verbatim>\<open>appendString\<close> of \<^verbatim>\<open>encoding/json\<close>
  writes it: unsafe ASCII characters escaped, a byte that is not the start of a
  well-formed rune replaced by the escape of U+FFFD, U+2028 and U+2029 escaped, every other rune
  copied.\<close>

function escapeString :: "string \<Rightarrow> string" where
  "escapeString [] = []"
| "escapeString (c # cs) =
     (if (of_char c :: nat) < 0x80
        then (if htmlSafe c then [c] else escapeByte c) @ escapeString cs
      else if runeLen (c # cs) = 0
        then [CHR 0x5C, CHR ''u'', CHR ''f'', CHR ''f'', CHR ''f'', CHR ''d''] @ escapeString cs
      else (if take 3 (c # cs) = [CHR 0xE2, CHR 0x80, CHR 0xA8]
              then [CHR 0x5C, CHR ''u'', CHR ''2'', CHR ''0'', CHR ''2'', CHR ''8'']
            else if take 3 (c # cs) = [CHR 0xE2, CHR 0x80, CHR 0xA9]
              then [CHR 0x5C, CHR ''u'', CHR ''2'', CHR ''0'', CHR ''2'', CHR ''9'']
            else take (runeLen (c # cs)) (c # cs))
           @ escapeString (drop (runeLen (c # cs) - 1) cs))"
  by pat_completeness auto
termination
  by (relation "measure length") auto

text \<open>A JSON string literal.\<close>

definition quote :: "string \<Rightarrow> string" where
  "quote s = CHR 0x22 # escapeString s @ [CHR 0x22]"

text \<open>A \<^verbatim>\<open>float64\<close> as JSON: the infinities and not-a-number cannot be encoded
  (\<^verbatim>\<open>UnsupportedValueError\<close>). The digits of a finite value are those of
  \<^verbatim>\<open>strconv.AppendFloat\<close>, taken here as the function \<open>fmt\<close>.\<close>

definition encodeFloat :: "(rat \<Rightarrow> string) \<Rightarrow> float64 \<Rightarrow> string + string" where
  "encodeFloat fmt f =
     (case f of
        Finite r \<Rightarrow> Inr (fmt r)
      | NegZero \<Rightarrow> Inr ''-0''
      | PosInf \<Rightarrow> Inl ''json: unsupported value: +Inf''
      | NegInf \<Rightarrow> Inl ''json: unsupported value: -Inf''
      | NaN \<Rightarrow> Inl ''json: unsupported value: NaN'')"

text \<open>A line break of \<^verbatim>\<open>MarshalIndent(v, "", "  ")\<close>: a new line, the empty prefix, and
  two spaces for each level of nesting.\<close>

definition newline :: "nat \<Rightarrow> string" where
  "newline depth = CHR 0x0A # concat (replicate depth ''  '')"

text \<open>The elements of an array or the members of an object between their brackets:
  \<open>[]\<close> or \<open>{}\<close> when there is none, one element on each line otherwise.\<close>

definition bracket :: "string \<Rightarrow> string \<Rightarrow> nat \<Rightarrow> string list \<Rightarrow> string" where
  "bracket l r depth ts =
     (if ts = [] then l @ r
      else l @ newline (Suc depth) @ Join ts ('','' @ newline (Suc depth)) @ newline depth @ r)"

text \<open>The results of encoding the elements in turn: the first error, if there is one.\<close>

fun collect :: "(string + 'a) list \<Rightarrow> string + 'a list" where
  "collect [] = Inr []"
| "collect (Inl e # _) = Inl e"
| "collect (Inr t # rs) = (case collect rs of Inl e \<Rightarrow> Inl e | Inr ts \<Rightarrow> Inr (t # ts))"

text \<open>One member of an object: the key as a string literal, a colon, a space, the
  value.\<close>

definition member :: "string \<Rightarrow> string + string \<Rightarrow> string + string" where
  "member k r = (case r of Inl e \<Rightarrow> Inl e | Inr t \<Rightarrow> Inr (quote k @ '': '' @ t))"

lemma size_snd_less:
  "kv \<in> set m \<Longrightarrow> size (snd kv) < Suc (size_list (size_prod (\<lambda>_. 0) size) m)"
proof (induction m)
  case Nil
  then show ?case by simp
next
  case (Cons a m)
  show ?case
  proof (cases "kv = a")
    case True
    then show ?thesis by (cases a) simp
  next
    case False
    with Cons have "size (snd kv) < Suc (size_list (size_prod (\<lambda>_. 0) size) m)" by simp
    then show ?thesis by simp
  qed
qed

text \<open>The indented encoding of a value nested \<open>depth\<close> levels deep. The keys of a map
  are sorted; the fields of a struct keep their order.\<close>

function (sequential) encode :: "(rat \<Rightarrow> string) \<Rightarrow> nat \<Rightarrow> iface \<Rightarrow> string + string" where
  "encode fmt depth VNil = Inr ''null''"
| "encode fmt depth (VBool b) = Inr (if b then ''true'' else ''false'')"
| "encode fmt depth (VInt i) = Inr (Itoa i)"
| "encode fmt depth (VFloat f) = encodeFloat fmt f"
| "encode fmt depth (VString s) = Inr (quote s)"
| "encode fmt depth (VSlice xs) =
     (case collect (map (encode fmt (Suc depth)) xs) of
        Inl e \<Rightarrow> Inl e
      | Inr ts \<Rightarrow> Inr (bracket ''['' '']'' depth ts))"
| "encode fmt depth (VMap m) =
     (case collect (map (\<lambda>kv. member (fst kv) (encode fmt (Suc depth) (snd kv)))
                        (sort_key fst m)) of
        Inl e \<Rightarrow> Inl e
      | Inr ts \<Rightarrow> Inr (bracket ''{'' ''}'' depth ts))"
| "encode fmt depth (VStruct fs) =
     (case collect (map (\<lambda>kv. member (fst kv) (encode fmt (Suc depth) (snd kv))) fs) of
        Inl e \<Rightarrow> Inl e
      | Inr ts \<Rightarrow> Inr (bracket ''{'' ''}'' depth ts))"
  by pat_completeness auto

termination
proof (relation "measure (\<lambda>(fmt, depth, v). size v)")
  show "wf (measure (\<lambda>(fmt, depth, v). size v))" by simp
next
  fix fmt :: "rat \<Rightarrow> string" and depth :: nat and xs :: "iface list" and x
  assume "x \<in> set xs"
  then have "size x < Suc (size_list size xs)"
    by (induction xs) auto
  then show "((fmt, Suc depth, x), fmt, depth, VSlice xs) \<in> measure (\<lambda>(fmt, depth, v). size v)"
    by simp
next
  fix fmt :: "rat \<Rightarrow> string" and depth :: nat and m :: "(string \<times> iface) list" and kv
  assume "kv \<in> set (sort_key fst m)"
  then have "kv \<in> set m" by simp
  then show "((fmt, Suc depth, snd kv), fmt, depth, VMap m) \<in> measure (\<lambda>(fmt, depth, v). size v)"
    using size_snd_less [of kv m] by simp
next
  fix fmt :: "rat \<Rightarrow> string" and depth :: nat and fs :: "(string \<times> iface) list" and kv
  assume "kv \<in> set fs"
  then show "((fmt, Suc depth, snd kv), fmt, depth, VStruct fs) \<in> measure (\<lambda>(fmt, depth, v). size v)"
    using size_snd_less [of kv fs] by simp
qed

text \<open>\<^verbatim>\<open>json.MarshalIndent(v, "", "  ")\<close>.\<close>

definition MarshalIndent :: "(rat \<Rightarrow> string) \<Rightarrow> iface \<Rightarrow> string + string" where
  "MarshalIndent fmt v = encode fmt 0 v"

section \<open>The search client (searxng.go)\<close>

text \<open>The client: its base URL and the timeout of its HTTP client, in seconds.\<close>

record SearXNGClient =
  BaseURL :: string
  Timeout :: nat

definition NewSearXNGClient :: "string \<Rightarrow> SearXNGClient" where
  "NewSearXNGClient baseURL = \<lparr>BaseURL = TrimSuffix baseURL ''/'', Timeout = 30\<rparr>"

record SearchResult =
  Title :: string
  URL :: string
  Content :: string
  Engine :: string
  Category :: string
  Score :: float64
  PublishedDate :: string

text \<open>\<open>Results\<close> is \<open>None\<close> for the nil slice, which is encoded as \<open>null\<close>; the other
  slices are only encoded when they have an element, so that nil and empty need not
  be told apart.\<close>

record SearchResponse =
  RespQuery :: string
  NumberOfResults :: int
  Results :: "SearchResult list option"
  Answers :: "string list"
  Corrections :: "string list"
  Infoboxes :: "iface list"
  Suggestions :: "string list"

record SearchParams =
  Query :: string
  Categories :: "string list"
  Engines :: "string list"
  Language :: string
  PageNo :: int
  TimeRange :: string
  SafeSearch :: int

text \<open>An HTTP request as the client builds it, and the response as the client reads
  it: the status code, the bytes \<^verbatim>\<open>io.ReadAll\<close> gets from the body and the error it
  may end with.\<close>

record Request =
  ReqMethod :: string
  ReqURL :: string
  ReqHeader :: "(string \<times> string list) list"

record Response =
  StatusCode :: int
  BodyData :: string
  BodyErr :: "string option"

text \<open>What a call depends on beside its arguments:
  \<^item> \<open>ParseURL\<close>: the error with which \<^verbatim>\<open>http.NewRequest\<close> rejects a URL, if it does;
  \<^item> \<open>Do\<close>: the round trip of \<^verbatim>\<open>HTTPClient.Do\<close>, a transport error (\<open>Inl\<close>, which
    includes the timeout) or the response of the backend;
  \<^item> \<open>UnmarshalSearchResponse\<close>, \<open>UnmarshalConfig\<close>: \<^verbatim>\<open>json.Unmarshal\<close> into a
    \<^verbatim>\<open>SearchResponse\<close> and into a \<^verbatim>\<open>map[string]interface{}\<close>;
  \<^item> \<open>IntOutOfRange\<close>: the result of \<^verbatim>\<open>int(f)\<close> where Go leaves it to the
    implementation;
  \<^item> \<open>FormatFloat\<close>: the digits \<^verbatim>\<open>encoding/json\<close> writes for a finite \<^verbatim>\<open>float64\<close>.\<close>

record Env =
  ParseURL :: "string \<Rightarrow> string option"
  Do :: "Request \<Rightarrow> string + Response"
  UnmarshalSearchResponse :: "string \<Rightarrow> string + SearchResponse"
  UnmarshalConfig :: "string \<Rightarrow> string + iface"
  IntOutOfRange :: "float64 \<Rightarrow> int"
  FormatFloat :: "rat \<Rightarrow> string"

text \<open>\<^verbatim>\<open>http.NewRequest("GET", url, nil)\<close>.\<close>

definition NewRequest :: "Env \<Rightarrow> string \<Rightarrow> string + Request" where
  "NewRequest env url =
     (case ParseURL env url of
        Some e \<Rightarrow> Inl e
      | None \<Rightarrow> Inr \<lparr>ReqMethod = ''GET'', ReqURL = url, ReqHeader = []\<rparr>)"

text \<open>\<^verbatim>\<open>req.Header.Set(key, value)\<close>, for a key in canonical form.\<close>

definition Header_Set :: "string \<Rightarrow> string \<Rightarrow> Request \<Rightarrow> Request" where
  "Header_Set key val req = req\<lparr>ReqHeader := AList.update key [val] (ReqHeader req)\<rparr>"

text \<open>The query values \<open>Search\<close> builds from the parameters (searxng.go, lines 61 to
  87).\<close>

definition searchValues :: "SearchParams \<Rightarrow> Values" where
  "searchValues params =
     (let values = [];
          values = Values_Set ''q'' (Query params) values;
          values = Values_Set ''format'' ''json'' values;
          values = (if length (Categories params) > 0
                    then Values_Set ''categories'' (Join (Categories params) '','') values
                    else values);
          values = (if length (Engines params) > 0
                    then Values_Set ''engines'' (Join (Engines params) '','') values
                    else values);
          values = (if Language params \<noteq> []
                    then Values_Set ''language'' (Language params) values
                    else values);
          values = (if PageNo params > 0
                    then Values_Set ''pageno'' (Itoa (PageNo params)) values
                    else values);
          values = (if TimeRange params \<noteq> []
                    then Values_Set ''time_range'' (TimeRange params) values
                    else values);
          values = (if SafeSearch params \<ge> 0 \<and> SafeSearch params \<le> 2
                    then Values_Set ''safesearch'' (Itoa (SafeSearch params)) values
                    else values)
      in values)"

text \<open>The URL \<open>Search\<close> requests.\<close>

definition searchRequestURL :: "SearXNGClient \<Rightarrow> SearchParams \<Rightarrow> string" where
  "searchRequestURL c params =
     (BaseURL c @ ''/search'') @ ''?'' @ Values_Encode (searchValues params)"

text \<open>\<open>Search\<close> and \<open>GetEngines\<close> return, beside their result (\<open>Inl\<close> is the error, as
  its message), the requests they have handed to the HTTP client: the calls to the
  network.\<close>

definition Search :: "Env \<Rightarrow> SearXNGClient \<Rightarrow> SearchParams
    \<Rightarrow> Request list \<times> (string + SearchResponse)" where
  "Search env c params =
     (case NewRequest env (searchRequestURL c params) of
        Inl err \<Rightarrow> ([], Inl (''error creating request: '' @ err))
      | Inr req0 \<Rightarrow>
          let req = Header_Set ''Accept'' ''application/json''
                      (Header_Set ''User-Agent'' ''MCP-SearXNG-Client/1.0'' req0)
          in (case Do env req of
                Inl err \<Rightarrow> ([req], Inl (''error executing request: '' @ err))
              | Inr resp \<Rightarrow>
                  if StatusCode resp \<noteq> 200
                  then ([req], Inl (''HTTP error '' @ Itoa (StatusCode resp) @ '': ''
                                      @ BodyData resp))
                  else (case BodyErr resp of
                          Some err \<Rightarrow> ([req], Inl (''error reading response: '' @ err))
                        | None \<Rightarrow>
                            (case UnmarshalSearchResponse env (BodyData resp) of
                               Inl err \<Rightarrow> ([req], Inl (''error parsing JSON: '' @ err))
                             | Inr searchResponse \<Rightarrow> ([req], Inr searchResponse)))))"

definition GetEngines :: "Env \<Rightarrow> SearXNGClient \<Rightarrow> Request list \<times> (string + iface)" where
  "GetEngines env c =
     (case NewRequest env (BaseURL c @ ''/config'') of
        Inl err \<Rightarrow> ([], Inl (''error creating request: '' @ err))
      | Inr req0 \<Rightarrow>
          let req = Header_Set ''Accept'' ''application/json''
                      (Header_Set ''User-Agent'' ''MCP-SearXNG-Client/1.0'' req0)
          in (case Do env req of
                Inl err \<Rightarrow> ([req], Inl (''error executing request: '' @ err))
              | Inr resp \<Rightarrow>
                  if StatusCode resp \<noteq> 200
                  then ([req], Inl (''HTTP error '' @ Itoa (StatusCode resp)))
                  else (case BodyErr resp of
                          Some err \<Rightarrow> ([req], Inl (''error reading response: '' @ err))
                        | None \<Rightarrow>
                            (case UnmarshalConfig env (BodyData resp) of
                               Inl err \<Rightarrow> ([req], Inl (''error parsing JSON: '' @ err))
                             | Inr config \<Rightarrow> ([req], Inr config)))))"

section \<open>The tool handlers (main.go)\<close>

text \<open>The arguments of a tool call, \<^verbatim>\<open>request.Params.Arguments\<close>: a map from names to
  dynamic values.\<close>

type_synonym Arguments = "string \<Rightarrow> iface option"

text \<open>A comma-separated argument made a list: \<^verbatim>\<open>strings.Split\<close>, then
  \<^verbatim>\<open>strings.TrimSpace\<close> on each element in its place (main.go, lines 135 to 138).\<close>

definition splitTrim :: "string \<Rightarrow> string list" where
  "splitTrim s = map TrimSpace (Split s (CHR '',''))"

text \<open>How the encoder sees the structs, from their field tags: a field tagged
  \<^verbatim>\<open>omitempty\<close> is left out when it is zero, empty or nil.\<close>

definition SearchResult_iface :: "SearchResult \<Rightarrow> iface" where
  "SearchResult_iface r =
     VStruct ([(''title'', VString (Title r)), (''url'', VString (URL r)),
               (''content'', VString (Content r)), (''engine'', VString (Engine r)),
               (''category'', VString (Category r))]
              @ (if isZero (Score r) then [] else [(''score'', VFloat (Score r))])
              @ (if PublishedDate r = [] then []
                 else [(''publishedDate'', VString (PublishedDate r))]))"

definition Results_iface :: "SearchResult list option \<Rightarrow> iface" where
  "Results_iface rs = (case rs of None \<Rightarrow> VNil | Some xs \<Rightarrow> VSlice (map SearchResult_iface xs))"

definition strings_iface :: "string list \<Rightarrow> iface" where
  "strings_iface xs = VSlice (map VString xs)"

definition SearchResponse_iface :: "SearchResponse \<Rightarrow> iface" where
  "SearchResponse_iface r =
     VStruct ([(''query'', VString (RespQuery r)),
               (''number_of_results'', VInt (NumberOfResults r)),
               (''results'', Results_iface (Results r))]
              @ (if Answers r = [] then [] else [(''answers'', strings_iface (Answers r))])
              @ (if Corrections r = [] then []
                 else [(''corrections'', strings_iface (Corrections r))])
              @ (if Infoboxes r = [] then [] else [(''infoboxes'', VSlice (Infoboxes r))])
              @ (if Suggestions r = [] then []
                 else [(''suggestions'', strings_iface (Suggestions r))]))"

subsection \<open>General search\<close>

text \<open>The parameters the handler builds from the arguments, once the query is known
  (main.go, lines 127 to 162).\<close>

definition searxngSearchParams :: "Env \<Rightarrow> Arguments \<Rightarrow> string \<Rightarrow> SearchParams" where
  "searxngSearchParams env args query =
     (let params = \<lparr>Query = query, Categories = [''general''], Engines = [''google''],
                     Language = ''en'', PageNo = 0, TimeRange = [], SafeSearch = 0\<rparr>;
          params = (case asString (args ''categories'') of
                      Some categories \<Rightarrow>
                        if categories \<noteq> [] then params\<lparr>Categories := splitTrim categories\<rparr>
                        else params
                    | None \<Rightarrow> params);
          params = (case asString (args ''engines'') of
                      Some engines \<Rightarrow>
                        if engines \<noteq> [] then params\<lparr>Engines := splitTrim engines\<rparr>
                        else params
                    | None \<Rightarrow> params);
          params = (case asString (args ''language'') of
                      Some language \<Rightarrow>
                        if language \<noteq> [] then params\<lparr>Language := language\<rparr> else params
                    | None \<Rightarrow> params);
          params = (case asFloat64 (args ''page'') of
                      Some pageFloat \<Rightarrow>
                        params\<lparr>PageNo := intOfFloat64 (IntOutOfRange env) pageFloat\<rparr>
                    | None \<Rightarrow> params);
          params = (case asString (args ''time_range'') of
                      Some timeRange \<Rightarrow> params\<lparr>TimeRange := timeRange\<rparr>
                    | None \<Rightarrow> params);
          params = (case asFloat64 (args ''safe_search'') of
                      Some safeSearchFloat \<Rightarrow>
                        params\<lparr>SafeSearch := intOfFloat64 (IntOutOfRange env) safeSearchFloat\<rparr>
                    | None \<Rightarrow> params)
      in params)"

text \<open>The map the handler fills from the result of the search (main.go, lines 169 to
  183).\<close>

definition searxngSearchResponse :: "SearchResponse \<Rightarrow> (string \<times> iface) list" where
  "searxngSearchResponse result =
     (let response = [(''query'', VString (RespQuery result)),
                      (''number_of_results'', VInt (NumberOfResults result)),
                      (''results'', Results_iface (Results result))];
          response = (if length (Answers result) > 0
                      then AList.update ''answers'' (strings_iface (Answers result)) response
                      else response);
          response = (if length (Suggestions result) > 0
                      then AList.update ''suggestions'' (strings_iface (Suggestions result))
                             response
                      else response);
          response = (if length (Corrections result) > 0
                      then AList.update ''corrections'' (strings_iface (Corrections result))
                             response
                      else response)
      in response)"

text \<open>A handler returns the requests made to the network and either the error of
  the call (\<open>Inl\<close>) or the text of the tool result (\<open>Inr\<close>).\<close>

definition searxngSearchHandler :: "Env \<Rightarrow> SearXNGClient \<Rightarrow> Arguments
    \<Rightarrow> Request list \<times> (string + string)" where
  "searxngSearchHandler env c args =
     (case asString (args ''query'') of
        None \<Rightarrow> ([], Inl ''query must be a string'')
      | Some query \<Rightarrow>
          (case Search env c (searxngSearchParams env args query) of
             (net, Inl err) \<Rightarrow> (net, Inl (''search error: '' @ err))
           | (net, Inr result) \<Rightarrow>
               (case MarshalIndent (FormatFloat env) (VMap (searxngSearchResponse result)) of
                  Inl err \<Rightarrow> (net, Inl (''result serialization error: '' @ err))
                | Inr jsonResult \<Rightarrow> (net, Inr jsonResult))))"

subsection \<open>Engine information\<close>

definition searxngEnginesInfoHandler :: "Env \<Rightarrow> SearXNGClient \<Rightarrow> Arguments
    \<Rightarrow> Request list \<times> (string + string)" where
  "searxngEnginesInfoHandler env c args =
     (case GetEngines env c of
        (net, Inl err) \<Rightarrow> (net, Inl (''error getting engines information: '' @ err))
      | (net, Inr config) \<Rightarrow>
          (case MarshalIndent (FormatFloat env) config of
             Inl err \<Rightarrow> (net, Inl (''result serialization error: '' @ err))
           | Inr jsonResult \<Rightarrow> (net, Inr jsonResult)))"

subsection \<open>Image search\<close>

text \<open>The parameters of an image search (main.go, lines 213 to 229).\<close>

definition searxngImageSearchParams :: "Env \<Rightarrow> Arguments \<Rightarrow> string \<Rightarrow> SearchParams" where
  "searxngImageSearchParams env args query =
     (let params = \<lparr>Query = query, Categories = [''images''], Engines = [''google images''],
                     Language = ''en'', PageNo = 0, TimeRange = [], SafeSearch = 0\<rparr>;
          params = (case asString (args ''engines'') of
                      Some engines \<Rightarrow>
                        if engines \<noteq> [] then params\<lparr>Engines := splitTrim engines\<rparr>
                        else params
                    | None \<Rightarrow> params);
          params = (case asFloat64 (args ''page'') of
                      Some pageFloat \<Rightarrow>
                        params\<lparr>PageNo := intOfFloat64 (IntOutOfRange env) pageFloat\<rparr>
                    | None \<Rightarrow> params)
      in params)"

definition searxngImageSearchHandler :: "Env \<Rightarrow> SearXNGClient \<Rightarrow> Arguments
    \<Rightarrow> Request list \<times> (string + string)" where
  "searxngImageSearchHandler env c args =
     (case asString (args ''query'') of
        None \<Rightarrow> ([], Inl ''query must be a string'')
      | Some query \<Rightarrow>
          (case Search env c (searxngImageSearchParams env args query) of
             (net, Inl err) \<Rightarrow> (net, Inl (''image search error: '' @ err))
           | (net, Inr result) \<Rightarrow>
               (case MarshalIndent (FormatFloat env) (SearchResponse_iface result) of
                  Inl err \<Rightarrow> (net, Inl (''result serialization error: '' @ err))
                | Inr jsonResult \<Rightarrow> (net, Inr jsonResult))))"

subsection \<open>News search\<close>

text \<open>The parameters of a news search (main.go, lines 250 to 267).\<close>

definition searxngNewsSearchParams :: "Env \<Rightarrow> Arguments \<Rightarrow> string \<Rightarrow> SearchParams" where
  "searxngNewsSearchParams env args query =
     (let params = \<lparr>Query = query, Categories = [''news''], Engines = [''google news''],
                     Language = ''en'', PageNo = 0, TimeRange = [], SafeSearch = 0\<rparr>;
          params = (case asString (args ''time_range'') of
                      Some timeRange \<Rightarrow> params\<lparr>TimeRange := timeRange\<rparr>
                    | None \<Rightarrow> params);
          params = (case asString (args ''language'') of
                      Some language \<Rightarrow>
                        if language \<noteq> [] then params\<lparr>Language := language\<rparr> else params
                    | None \<Rightarrow> params);
          params = (case asFloat64 (args ''page'') of
                      Some pageFloat \<Rightarrow>
                        params\<lparr>PageNo := intOfFloat64 (IntOutOfRange env) pageFloat\<rparr>
                    | None \<Rightarrow> params)
      in params)"

definition searxngNewsSearchHandler :: "Env \<Rightarrow> SearXNGClient \<Rightarrow> Arguments
    \<Rightarrow> Request list \<times> (string + string)" where
  "searxngNewsSearchHandler env c args =
     (case asString (args ''query'') of
        None \<Rightarrow> ([], Inl ''query must be a string'')
      | Some query \<Rightarrow>
          (case Search env c (searxngNewsSearchParams env args query) of
             (net, Inl err) \<Rightarrow> (net, Inl (''news search error: '' @ err))
           | (net, Inr result) \<Rightarrow>
               (case MarshalIndent (FormatFloat env) (SearchResponse_iface result) of
                  Inl err \<Rightarrow> (net, Inl (''result serialization error: '' @ err))
                | Inr jsonResult \<Rightarrow> (net, Inr jsonResult))))"

section \<open>A stubbed backend\<close>

text \<open>The response of the scenario of the specification: one result for the query
  \<open>cats\<close>.\<close>

definition exampleResponse :: SearchResponse where
  "exampleResponse =
     \<lparr>RespQuery = ''cats'', NumberOfResults = 1,
      Results = Some [\<lparr>Title = ''T'', URL = ''U'', Content = ''C'', Engine = ''google'',
                        Category = ''general'', Score = Finite 0, PublishedDate = []\<rparr>],
      Answers = [], Corrections = [], Infoboxes = [], Suggestions = []\<rparr>"

text \<open>A backend that answers every request with the response \<open>resp\<close>; every URL is
  accepted, every body decodes to the response above, the configuration is
  \<^verbatim>\<open>{"engines":{"google":{}}}\<close>. A number out of the range of \<^verbatim>\<open>int\<close> is converted as
  on amd64, to the smallest \<^verbatim>\<open>int\<close>. The response has no number with a fraction to
  write, so that the digits of a \<^verbatim>\<open>float64\<close> do not matter.\<close>

definition stubEnv :: "Response \<Rightarrow> Env" where
  "stubEnv resp =
     \<lparr>ParseURL = (\<lambda>url. None),
      Do = (\<lambda>req. Inr resp),
      UnmarshalSearchResponse = (\<lambda>body. Inr exampleResponse),
      UnmarshalConfig = (\<lambda>body. Inr (VMap [(''engines'', VMap [(''google'', VMap [])])])),
      IntOutOfRange = (\<lambda>f. - (2 ^ 63)),
      FormatFloat = (\<lambda>r. ''0'')\<rparr>"

definition ok200 :: Response where
  "ok200 = \<lparr>StatusCode = 200, BodyData = ''{}'', BodyErr = None\<rparr>"

definition error500 :: Response where
  "error500 = \<lparr>StatusCode = 500, BodyData = ''upstream error'', BodyErr = None\<rparr>"

definition exampleClient :: SearXNGClient where
  "exampleClient = NewSearXNGClient ''http://127.0.0.1:8080''"

section \<open>Notions used in the statements\<close>

text \<open>The header of every request of the client, and the request for a URL.\<close>

definition clientHeader :: "(string \<times> string list) list" where
  "clientHeader =
     [(''User-Agent'', [''MCP-SearXNG-Client/1.0'']), (''Accept'', [''application/json''])]"

definition getRequest :: "string \<Rightarrow> Request" where
  "getRequest url = \<lparr>ReqMethod = ''GET'', ReqURL = url, ReqHeader = clientHeader\<rparr>"

text \<open>Parameters with nothing but a query: no optional value, and a safe-search
  level out of range.\<close>

definition catsParams :: SearchParams where
  "catsParams = \<lparr>Query = ''cats'', Categories = [], Engines = [], Language = [],
      PageNo = 0, TimeRange = [], SafeSearch = 3\<rparr>"

text \<open>Parameters with every optional value.\<close>

definition newsParams :: SearchParams where
  "newsParams = \<lparr>Query = ''cats & dogs'', Categories = [''general'', ''news''],
      Engines = [''google''], Language = ''en'', PageNo = 2, TimeRange = ''week'',
      SafeSearch = 0\<rparr>"

text \<open>The arguments of the call \<^verbatim>\<open>searxng_search(query="cats")\<close>, and the URL it
  requests from a client.\<close>

definition catsArguments :: Arguments where
  "catsArguments = [''query'' \<mapsto> VString ''cats'']"

definition catsURL :: "SearXNGClient \<Rightarrow> string" where
  "catsURL c = BaseURL c
     @ ''/search?categories=general&engines=google&format=json&language=en&q=cats&safesearch=0''"

text \<open>The arguments of a call with an empty query.\<close>

definition emptyQueryArguments :: Arguments where
  "emptyQueryArguments = [''query'' \<mapsto> VString []]"

text \<open>\<open>wrongType strs nums k v\<close>: the value \<open>v\<close> has not the type the handler expects
  of the optional argument \<open>k\<close>, where \<open>strs\<close> are the optional arguments read as
  strings and \<open>nums\<close> those read as numbers.\<close>

definition wrongType :: "string set \<Rightarrow> string set \<Rightarrow> string \<Rightarrow> iface \<Rightarrow> bool" where
  "wrongType strs nums k v \<longleftrightarrow>
     (k \<in> strs \<and> (\<forall>s. v \<noteq> VString s)) \<or> (k \<in> nums \<and> (\<forall>f. v \<noteq> VFloat f))"

text \<open>Arguments whose query is a number.\<close>

definition wrongArguments :: Arguments where
  "wrongArguments = [''query'' \<mapsto> VFloat (Finite 1)]"

text \<open>Arguments of an image search with engines and a page.\<close>

definition imageArguments :: Arguments where
  "imageArguments = [''query'' \<mapsto> VString ''cats'', ''engines'' \<mapsto> VString ''bing images, flickr'',
     ''page'' \<mapsto> VFloat (Finite 2)]"

text \<open>Arguments with lists to split, an empty list of engines and a page with a
  fraction; arguments with a blank list of categories and a page beyond the range
  of \<^verbatim>\<open>int\<close>.\<close>

definition coercionArguments :: Arguments where
  "coercionArguments = [''query'' \<mapsto> VString ''cats'',
     ''categories'' \<mapsto> VString '' general , news '', ''engines'' \<mapsto> VString [],
     ''page'' \<mapsto> VFloat (Finite (- (7 / 2)))]"

definition blankArguments :: Arguments where
  "blankArguments = [''query'' \<mapsto> VString ''cats'', ''categories'' \<mapsto> VString '' '',
     ''page'' \<mapsto> VFloat (Finite (2 ^ 63))]"

text \<open>A string between double quotes, and a text given by its lines.\<close>

definition dq :: "string \<Rightarrow> string" where
  "dq s = CHR 0x22 # s @ [CHR 0x22]"

definition textLines :: "string list \<Rightarrow> string" where
  "textLines ls = Join ls [CHR 0x0A]"

text \<open>The text the general search returns for the stubbed response.\<close>

definition examplePayload :: string where
  "examplePayload = textLines
     [''{'',
      ''  '' @ dq ''number_of_results'' @ '': 1,'',
      ''  '' @ dq ''query'' @ '': '' @ dq ''cats'' @ '','',
      ''  '' @ dq ''results'' @ '': ['',
      ''    {'',
      ''      '' @ dq ''title'' @ '': '' @ dq ''T'' @ '','',
      ''      '' @ dq ''url'' @ '': '' @ dq ''U'' @ '','',
      ''      '' @ dq ''content'' @ '': '' @ dq ''C'' @ '','',
      ''      '' @ dq ''engine'' @ '': '' @ dq ''google'' @ '','',
      ''      '' @ dq ''category'' @ '': '' @ dq ''general'',
      ''    }'',
      ''  ]'',
      ''}'']"

text \<open>A second backend: it gives the same response to the request of the call
  \<^verbatim>\<open>searxng_search(query="cats")\<close>, and refuses every other request.\<close>

definition otherEnv :: Env where
  "otherEnv = (stubEnv ok200)
     \<lparr>Do := (\<lambda>req. if ReqURL req = catsURL exampleClient then Inr ok200
                    else Inl ''connection refused'')\<rparr>"

section \<open>Properties\<close>

subsection \<open>The client\<close>

lemma TrimSuffix_append: "TrimSuffix (u @ s) s = u"
  by (simp add: TrimSuffix_def suffix_def)

lemma TrimSuffix_no_suffix: "\<not> suffix s u \<Longrightarrow> TrimSuffix u s = u"
  by (simp add: TrimSuffix_def)

lemma Search_net:
  "fst (Search env c params) =
     (case ParseURL env (searchRequestURL c params) of
        Some e \<Rightarrow> [] | None \<Rightarrow> [getRequest (searchRequestURL c params)])"
  by (simp add: Search_def NewRequest_def Header_Set_def getRequest_def clientHeader_def Let_def
           split: option.splits sum.splits)

lemma GetEngines_net:
  "fst (GetEngines env c) =
     (case ParseURL env (BaseURL c @ ''/config'') of
        Some e \<Rightarrow> [] | None \<Rightarrow> [getRequest (BaseURL c @ ''/config'')])"
  by (simp add: GetEngines_def NewRequest_def Header_Set_def getRequest_def clientHeader_def Let_def
           split: option.splits sum.splits)

text \<open>
  Claim C10. The client is built with the base URL without one trailing slash: a URL
  \<open>u\<close> followed by a slash gives \<open>u\<close>, whatever \<open>u\<close> is, and a URL that does not end
  with a slash is kept; so a base URL with and without its one trailing slash give the
  same client. The one request \<open>Search\<close> makes goes to the stripped base URL followed by
  \<open>/search\<close> and the query, the one request \<open>GetEngines\<close> makes to the stripped base URL
  followed by \<open>/config\<close> (no request is made when the URL is rejected).
\<close>

theorem base_url_without_trailing_slash:
  "BaseURL (NewSearXNGClient (u @ ''/'')) = u
   \<and> (\<not> suffix ''/'' u \<longrightarrow>
        BaseURL (NewSearXNGClient u) = u \<and> NewSearXNGClient (u @ ''/'') = NewSearXNGClient u)
   \<and> map ReqURL (fst (Search env (NewSearXNGClient b) params)) =
       (case ParseURL env (TrimSuffix b ''/'' @ ''/search?'' @ Values_Encode (searchValues params)) of
          Some e \<Rightarrow> []
        | None \<Rightarrow> [TrimSuffix b ''/'' @ ''/search?'' @ Values_Encode (searchValues params)])
   \<and> map ReqURL (fst (GetEngines env (NewSearXNGClient b))) =
       (case ParseURL env (TrimSuffix b ''/'' @ ''/config'') of
          Some e \<Rightarrow> []
        | None \<Rightarrow> [TrimSuffix b ''/'' @ ''/config''])"
proof -
  have 1: "BaseURL (NewSearXNGClient (u @ ''/'')) = u"
    by (simp add: NewSearXNGClient_def TrimSuffix_append)
  have 2: "\<not> suffix ''/'' u \<longrightarrow>
        BaseURL (NewSearXNGClient u) = u \<and> NewSearXNGClient (u @ ''/'') = NewSearXNGClient u"
    by (simp add: NewSearXNGClient_def TrimSuffix_append TrimSuffix_no_suffix)
  have 3: "map ReqURL (fst (Search env (NewSearXNGClient b) params)) =
       (case ParseURL env (TrimSuffix b ''/'' @ ''/search?'' @ Values_Encode (searchValues params)) of
          Some e \<Rightarrow> []
        | None \<Rightarrow> [TrimSuffix b ''/'' @ ''/search?'' @ Values_Encode (searchValues params)])"
    by (simp add: Search_net searchRequestURL_def NewSearXNGClient_def getRequest_def
             split: option.splits)
  have 4: "map ReqURL (fst (GetEngines env (NewSearXNGClient b))) =
       (case ParseURL env (TrimSuffix b ''/'' @ ''/config'') of
          Some e \<Rightarrow> []
        | None \<Rightarrow> [TrimSuffix b ''/'' @ ''/config''])"
    by (simp add: GetEngines_net NewSearXNGClient_def getRequest_def split: option.splits)
  from 1 2 3 4 show ?thesis by blast
qed

theorem base_url_without_trailing_slash_witness:
  "\<not> suffix ''/'' ''http://127.0.0.1:8080''
   \<and> NewSearXNGClient ''http://127.0.0.1:8080/'' = NewSearXNGClient ''http://127.0.0.1:8080''
   \<and> BaseURL (NewSearXNGClient ''http://127.0.0.1:8080//'') = ''http://127.0.0.1:8080/''
   \<and> map ReqURL (fst (Search (stubEnv ok200) (NewSearXNGClient ''http://127.0.0.1:8080/'')
            catsParams)) = [''http://127.0.0.1:8080/search?format=json&q=cats'']
   \<and> map ReqURL (fst (GetEngines (stubEnv ok200) (NewSearXNGClient ''http://127.0.0.1:8080/'')))
       = [''http://127.0.0.1:8080/config'']"
proof -
  have h: "\<not> suffix ''/'' ''http://127.0.0.1:8080''" by code_simp
  have e1: "ParseURL (stubEnv ok200) url = None" for url by (simp add: stubEnv_def)
  have e2: "TrimSuffix ''http://127.0.0.1:8080/'' ''/'' = ''http://127.0.0.1:8080''" by code_simp
  have e3: "Values_Encode (searchValues catsParams) = ''format=json&q=cats''" by code_simp
  note t = base_url_without_trailing_slash [of "''http://127.0.0.1:8080''" "stubEnv ok200"
      "''http://127.0.0.1:8080/''" catsParams]
  note t2 = base_url_without_trailing_slash [of "''http://127.0.0.1:8080/''" "stubEnv ok200"
      "''http://127.0.0.1:8080/''" catsParams]
  show ?thesis using h t t2 by (simp add: e1 e2 e3)
qed

text \<open>
  Claim C6. When the backend answers the request for \<open>/config\<close> with a status other
  than 200, \<open>GetEngines\<close> fails with the message \<open>HTTP error\<close> and the status code,
  and nothing else: the body of the response is not in the error, whereas \<open>Search\<close>
  appends it.
\<close>

theorem GetEngines_status_error:
  assumes "ParseURL env (BaseURL c @ ''/config'') = None"
    and "Do env (getRequest (BaseURL c @ ''/config'')) = Inr resp"
    and "StatusCode resp \<noteq> 200"
  shows "GetEngines env c =
           ([getRequest (BaseURL c @ ''/config'')], Inl (''HTTP error '' @ Itoa (StatusCode resp)))"
  using assms
  by (simp add: GetEngines_def NewRequest_def Header_Set_def getRequest_def clientHeader_def Let_def)

theorem GetEngines_status_error_witness:
  "ParseURL (stubEnv error500) (BaseURL exampleClient @ ''/config'') = None
   \<and> Do (stubEnv error500) (getRequest (BaseURL exampleClient @ ''/config'')) = Inr error500
   \<and> StatusCode error500 \<noteq> 200
   \<and> BodyData error500 = ''upstream error''
   \<and> snd (GetEngines (stubEnv error500) exampleClient) = Inl ''HTTP error 500''
   \<and> snd (Search (stubEnv error500) exampleClient catsParams) =
        Inl ''HTTP error 500: upstream error''"
proof -
  have h1: "ParseURL (stubEnv error500) (BaseURL exampleClient @ ''/config'') = None"
    by (simp add: stubEnv_def)
  have h2: "Do (stubEnv error500) (getRequest (BaseURL exampleClient @ ''/config'')) = Inr error500"
    by (simp add: stubEnv_def)
  have h3: "StatusCode error500 \<noteq> 200" by (simp add: error500_def)
  have e1: "Itoa (StatusCode error500) = ''500''" by code_simp
  have e2: "snd (Search (stubEnv error500) exampleClient catsParams) =
        Inl ''HTTP error 500: upstream error''" by code_simp
  have e3: "BodyData error500 = ''upstream error''" by (simp add: error500_def)
  show ?thesis using GetEngines_status_error [OF h1 h2 h3] h1 h2 h3 e2 e3 by (simp add: e1)
qed

subsection \<open>The query string\<close>

lemma searchValues_eq:
  "searchValues p =
     [(''q'', [Query p]), (''format'', [''json''])]
     @ (if Categories p \<noteq> [] then [(''categories'', [Join (Categories p) '',''])] else [])
     @ (if Engines p \<noteq> [] then [(''engines'', [Join (Engines p) '',''])] else [])
     @ (if Language p \<noteq> [] then [(''language'', [Language p])] else [])
     @ (if PageNo p > 0 then [(''pageno'', [Itoa (PageNo p)])] else [])
     @ (if TimeRange p \<noteq> [] then [(''time_range'', [TimeRange p])] else [])
     @ (if 0 \<le> SafeSearch p \<and> SafeSearch p \<le> 2
        then [(''safesearch'', [Itoa (SafeSearch p)])] else [])"
  by (simp add: searchValues_def Values_Set_def Let_def)

lemma sort_values:
  "sort_key fst
     ([(''q'', q), (''format'', f)]
      @ (if b1 then [(''categories'', c)] else [])
      @ (if b2 then [(''engines'', e)] else [])
      @ (if b3 then [(''language'', l)] else [])
      @ (if b4 then [(''pageno'', n)] else [])
      @ (if b5 then [(''time_range'', t)] else [])
      @ (if b6 then [(''safesearch'', s)] else []))
   = (if b1 then [(''categories'', c)] else [])
      @ (if b2 then [(''engines'', e)] else [])
      @ [(''format'', f)]
      @ (if b3 then [(''language'', l)] else [])
      @ (if b4 then [(''pageno'', n)] else [])
      @ [(''q'', q)]
      @ (if b6 then [(''safesearch'', s)] else [])
      @ (if b5 then [(''time_range'', t)] else [])"
  by (cases b1; cases b2; cases b3; cases b4; cases b5; cases b6; simp)

lemma QueryEscape_append: "QueryEscape (xs @ ys) = QueryEscape xs @ QueryEscape ys"
  by (induction xs) auto

lemma of_char_digit: "d < 10 \<Longrightarrow> (of_char (digit d) :: nat) = 48 + d"
  by (simp add: digit_def)

lemma QueryEscape_digit: "d < 10 \<Longrightarrow> QueryEscape [digit d] = [digit d]"
proof -
  assume d: "d < 10"
  have "isAlnum (digit d)"
    using d by (simp add: isAlnum_def less_eq_char_def of_char_digit)
  moreover have "digit d \<noteq> CHR '' ''"
    using of_char_digit [OF d] by auto
  ultimately show ?thesis by (simp add: shouldEscape_def)
qed

lemma QueryEscape_utoa: "QueryEscape (utoa n) = utoa n"
proof (induction n rule: utoa.induct)
  case (1 n)
  show ?case
  proof (cases "n < 10")
    case True
    then show ?thesis by (subst (1 2) utoa.simps) (simp add: QueryEscape_digit del: QueryEscape.simps)
  next
    case False
    then have "QueryEscape (utoa (n div 10)) = utoa (n div 10)" using 1 by simp
    moreover have "QueryEscape [digit (n mod 10)] = [digit (n mod 10)]"
      by (rule QueryEscape_digit) simp
    ultimately show ?thesis
      using False by (subst (1 2) utoa.simps) (simp add: QueryEscape_append del: utoa.simps QueryEscape.simps)
  qed
qed

lemma QueryEscape_Itoa: "0 \<le> i \<Longrightarrow> QueryEscape (Itoa i) = Itoa i"
  by (simp add: Itoa_def QueryEscape_utoa del: utoa.simps)

lemma encodePair_keys:
  "encodePair ''q'' x = ''q='' @ QueryEscape x"
  "encodePair ''format'' x = ''format='' @ QueryEscape x"
  "encodePair ''categories'' x = ''categories='' @ QueryEscape x"
  "encodePair ''engines'' x = ''engines='' @ QueryEscape x"
  "encodePair ''language'' x = ''language='' @ QueryEscape x"
  "encodePair ''pageno'' x = ''pageno='' @ QueryEscape x"
  "encodePair ''time_range'' x = ''time_range='' @ QueryEscape x"
  "encodePair ''safesearch'' x = ''safesearch='' @ QueryEscape x"
  by (simp_all add: encodePair_def shouldEscape_def isAlnum_def less_eq_char_def)

lemma QueryEscape_json: "QueryEscape ''json'' = ''json''"
  by (simp add: shouldEscape_def isAlnum_def less_eq_char_def)

lemma encodedPairs_searchValues:
  "encodedPairs (searchValues p) =
     (if Categories p \<noteq> [] then [''categories='' @ QueryEscape (Join (Categories p) '','')] else [])
     @ (if Engines p \<noteq> [] then [''engines='' @ QueryEscape (Join (Engines p) '','')] else [])
     @ [''format=json'']
     @ (if Language p \<noteq> [] then [''language='' @ QueryEscape (Language p)] else [])
     @ (if PageNo p > 0 then [''pageno='' @ Itoa (PageNo p)] else [])
     @ [''q='' @ QueryEscape (Query p)]
     @ (if 0 \<le> SafeSearch p \<and> SafeSearch p \<le> 2
        then [''safesearch='' @ Itoa (SafeSearch p)] else [])
     @ (if TimeRange p \<noteq> [] then [''time_range='' @ QueryEscape (TimeRange p)] else [])"
  unfolding encodedPairs_def searchValues_eq sort_values
  by (simp add: encodePair_keys QueryEscape_json QueryEscape_Itoa del: QueryEscape.simps)


lemma distinct_keys:
  "distinct (map fst
     ([(''q'', q), (''format'', f)]
      @ (if b1 then [(''categories'', c)] else [])
      @ (if b2 then [(''engines'', e)] else [])
      @ (if b3 then [(''language'', l)] else [])
      @ (if b4 then [(''pageno'', n)] else [])
      @ (if b5 then [(''time_range'', t)] else [])
      @ (if b6 then [(''safesearch'', s)] else [])))"
  by (cases b1; cases b2; cases b3; cases b4; cases b5; cases b6; simp)

text \<open>
  Claim C1. Whatever the parameters, the query values \<open>Search\<close> builds hold \<open>q\<close> (the
  query) and \<open>format=json\<close>, and each optional parameter exactly when its condition
  holds: \<open>categories\<close> and \<open>engines\<close> when their list is not empty (joined with
  commas), \<open>language\<close> and \<open>time_range\<close> when their string is not empty, \<open>pageno\<close> when
  the page number is positive, \<open>safesearch\<close> when the level is between 0 and 2 (so 3 is
  left out and 0 is sent); there is no other key and no key twice. The query string
  is made of these parameters, sorted by key, escaped, and joined by \<open>&\<close>.
\<close>

theorem Search_query_parameters:
  "map_of (searchValues p) ''q'' = Some [Query p]
   \<and> map_of (searchValues p) ''format'' = Some [''json'']
   \<and> map_of (searchValues p) ''categories'' =
       (if Categories p \<noteq> [] then Some [Join (Categories p) '',''] else None)
   \<and> map_of (searchValues p) ''engines'' =
       (if Engines p \<noteq> [] then Some [Join (Engines p) '',''] else None)
   \<and> map_of (searchValues p) ''language'' =
       (if Language p \<noteq> [] then Some [Language p] else None)
   \<and> map_of (searchValues p) ''pageno'' =
       (if PageNo p > 0 then Some [Itoa (PageNo p)] else None)
   \<and> map_of (searchValues p) ''time_range'' =
       (if TimeRange p \<noteq> [] then Some [TimeRange p] else None)
   \<and> map_of (searchValues p) ''safesearch'' =
       (if 0 \<le> SafeSearch p \<and> SafeSearch p \<le> 2 then Some [Itoa (SafeSearch p)] else None)
   \<and> fst ` set (searchValues p) \<subseteq>
       {''q'', ''format'', ''categories'', ''engines'', ''language'', ''pageno'',
        ''time_range'', ''safesearch''}
   \<and> distinct (map fst (searchValues p))
   \<and> Values_Encode (searchValues p) =
       Join ((if Categories p \<noteq> []
              then [''categories='' @ QueryEscape (Join (Categories p) '','')] else [])
            @ (if Engines p \<noteq> []
               then [''engines='' @ QueryEscape (Join (Engines p) '','')] else [])
            @ [''format=json'']
            @ (if Language p \<noteq> [] then [''language='' @ QueryEscape (Language p)] else [])
            @ (if PageNo p > 0 then [''pageno='' @ Itoa (PageNo p)] else [])
            @ [''q='' @ QueryEscape (Query p)]
            @ (if 0 \<le> SafeSearch p \<and> SafeSearch p \<le> 2
               then [''safesearch='' @ Itoa (SafeSearch p)] else [])
            @ (if TimeRange p \<noteq> [] then [''time_range='' @ QueryEscape (TimeRange p)] else []))
         ''&''"
proof -
  have "map_of (searchValues p) ''q'' = Some [Query p]"
    and "map_of (searchValues p) ''format'' = Some [''json'']"
    and "map_of (searchValues p) ''categories'' =
       (if Categories p \<noteq> [] then Some [Join (Categories p) '',''] else None)"
    and "map_of (searchValues p) ''engines'' =
       (if Engines p \<noteq> [] then Some [Join (Engines p) '',''] else None)"
    and "map_of (searchValues p) ''language'' =
       (if Language p \<noteq> [] then Some [Language p] else None)"
    and "map_of (searchValues p) ''pageno'' =
       (if PageNo p > 0 then Some [Itoa (PageNo p)] else None)"
    and "map_of (searchValues p) ''time_range'' =
       (if TimeRange p \<noteq> [] then Some [TimeRange p] else None)"
    and "map_of (searchValues p) ''safesearch'' =
       (if 0 \<le> SafeSearch p \<and> SafeSearch p \<le> 2 then Some [Itoa (SafeSearch p)] else None)"
    by (simp_all add: searchValues_eq)
  moreover have "fst ` set (searchValues p) \<subseteq>
       {''q'', ''format'', ''categories'', ''engines'', ''language'', ''pageno'',
        ''time_range'', ''safesearch''}"
    by (auto simp: searchValues_eq split: if_splits)
  moreover have "distinct (map fst (searchValues p))"
    unfolding searchValues_eq by (rule distinct_keys)
  moreover note encodedPairs_searchValues [of p]
  ultimately show ?thesis
    unfolding Values_Encode_def by simp
qed

theorem Search_query_parameters_witness:
  "map_of (searchValues catsParams) ''safesearch'' = None
   \<and> map_of (searchValues catsParams) ''pageno'' = None
   \<and> Values_Encode (searchValues catsParams) = ''format=json&q=cats''
   \<and> map_of (searchValues newsParams) ''safesearch'' = Some [''0'']
   \<and> map_of (searchValues newsParams) ''categories'' = Some [''general,news'']
   \<and> Values_Encode (searchValues newsParams) =
       ''categories=general%2Cnews&engines=google&format=json&language=en&pageno=2&q=cats+%26+dogs&safesearch=0&time_range=week''"
proof -
  have c: "SafeSearch catsParams = 3" "PageNo catsParams = 0" "Categories catsParams = []"
    "Engines catsParams = []" "Language catsParams = []" "TimeRange catsParams = []"
    "QueryEscape (Query catsParams) = ''cats''"
    by (simp_all add: catsParams_def shouldEscape_def isAlnum_def less_eq_char_def)
  have n: "SafeSearch newsParams = 0" "PageNo newsParams = 2"
    "Categories newsParams = [''general'', ''news'']"
    "Engines newsParams = [''google'']" "Language newsParams = ''en''"
    "TimeRange newsParams = ''week''"
    by (simp_all add: newsParams_def)
  have e: "Itoa 0 = ''0''" "Itoa 2 = ''2''"
    "QueryEscape (Query newsParams) = ''cats+%26+dogs''"
    "QueryEscape ''general,news'' = ''general%2Cnews''"
    "QueryEscape ''google'' = ''google''"
    "QueryEscape ''en'' = ''en''"
    "QueryEscape ''week'' = ''week''"
    by code_simp+
  have 1: "map_of (searchValues catsParams) ''safesearch'' = None
     \<and> map_of (searchValues catsParams) ''pageno'' = None
     \<and> Values_Encode (searchValues catsParams) = ''format=json&q=cats''"
    using Search_query_parameters [of catsParams] by (simp add: c)
  have 2: "map_of (searchValues newsParams) ''safesearch'' = Some [''0'']
     \<and> map_of (searchValues newsParams) ''categories'' = Some [''general,news'']
     \<and> Values_Encode (searchValues newsParams) =
       ''categories=general%2Cnews&engines=google&format=json&language=en&pageno=2&q=cats+%26+dogs&safesearch=0&time_range=week''"
    using Search_query_parameters [of newsParams] by (simp add: n e del: QueryEscape.simps)
  from 1 2 show ?thesis by simp
qed


subsection \<open>The handlers: requests\<close>

lemma searxngSearchHandler_net:
  "asString (args ''query'') = Some q \<Longrightarrow>
   fst (searxngSearchHandler env c args) = fst (Search env c (searxngSearchParams env args q))"
  by (simp add: searxngSearchHandler_def split: prod.splits sum.splits)

lemma searxngImageSearchHandler_net:
  "asString (args ''query'') = Some q \<Longrightarrow>
   fst (searxngImageSearchHandler env c args) =
     fst (Search env c (searxngImageSearchParams env args q))"
  by (simp add: searxngImageSearchHandler_def split: prod.splits sum.splits)

lemma searxngNewsSearchHandler_net:
  "asString (args ''query'') = Some q \<Longrightarrow>
   fst (searxngNewsSearchHandler env c args) =
     fst (Search env c (searxngNewsSearchParams env args q))"
  by (simp add: searxngNewsSearchHandler_def split: prod.splits sum.splits)

lemma handler_error_not_input:
  "snd (searxngSearchHandler env c args) = Inl ''query must be a string''
     \<longleftrightarrow> asString (args ''query'') = None"
  "snd (searxngImageSearchHandler env c args) = Inl ''query must be a string''
     \<longleftrightarrow> asString (args ''query'') = None"
  "snd (searxngNewsSearchHandler env c args) = Inl ''query must be a string''
     \<longleftrightarrow> asString (args ''query'') = None"
  by (auto simp: searxngSearchHandler_def searxngImageSearchHandler_def
        searxngNewsSearchHandler_def split: option.splits prod.splits sum.splits)

lemma cats_params:
  "searxngSearchParams env catsArguments ''cats'' =
     \<lparr>Query = ''cats'', Categories = [''general''], Engines = [''google''],
      Language = ''en'', PageNo = 0, TimeRange = [], SafeSearch = 0\<rparr>"
  by (simp add: searxngSearchParams_def catsArguments_def asString_def asFloat64_def)

lemma cats_values:
  "searchValues (searxngSearchParams env catsArguments ''cats'') =
     [(''q'', [''cats'']), (''format'', [''json'']), (''categories'', [''general'']),
      (''engines'', [''google'']), (''language'', [''en'']), (''safesearch'', [''0''])]"
proof -
  have "Itoa 0 = ''0''" by code_simp
  then show ?thesis by (simp add: cats_params searchValues_eq)
qed

lemma cats_url: "searchRequestURL c (searxngSearchParams env catsArguments ''cats'') = catsURL c"
proof -
  have "Values_Encode [(''q'', [''cats'']), (''format'', [''json'']), (''categories'', [''general'']),
      (''engines'', [''google'']), (''language'', [''en'']), (''safesearch'', [''0''])]
      = ''categories=general&engines=google&format=json&language=en&q=cats&safesearch=0''"
    by code_simp
  then show ?thesis by (simp add: searchRequestURL_def cats_values catsURL_def)
qed

text \<open>
  Claim C4, as amended. A general search with the one argument \<open>query = "cats"\<close>
  makes one GET request, to the base URL followed by
  \<open>/search?categories=general&engines=google&format=json&language=en&q=cats&safesearch=0\<close>
  (none when the URL is rejected): the query holds \<open>q=cats\<close>, \<open>format=json\<close>,
  \<open>categories=general\<close>, \<open>engines=google\<close>, \<open>language=en\<close> and also \<open>safesearch=0\<close>,
  since the safe-search level of the parameters is 0 when the argument is absent, and 0
  is a level that is sent.
\<close>

theorem cats_request:
  "fst (searxngSearchHandler env c catsArguments) =
     (case ParseURL env (catsURL c) of Some e \<Rightarrow> [] | None \<Rightarrow> [getRequest (catsURL c)])
   \<and> set (searchValues (searxngSearchParams env catsArguments ''cats'')) =
       {(''q'', [''cats'']), (''format'', [''json'']), (''categories'', [''general'']),
        (''engines'', [''google'']), (''language'', [''en'']), (''safesearch'', [''0''])}"
proof -
  have "asString (catsArguments ''query'') = Some ''cats''"
    by (simp add: catsArguments_def asString_def)
  then have "fst (searxngSearchHandler env c catsArguments) =
     (case ParseURL env (catsURL c) of Some e \<Rightarrow> [] | None \<Rightarrow> [getRequest (catsURL c)])"
    by (simp add: searxngSearchHandler_net Search_net cats_url cong: option.case_cong)
  moreover have "set (searchValues (searxngSearchParams env catsArguments ''cats'')) =
       {(''q'', [''cats'']), (''format'', [''json'']), (''categories'', [''general'']),
        (''engines'', [''google'']), (''language'', [''en'']), (''safesearch'', [''0''])}"
    by (simp add: cats_values)
  ultimately show ?thesis by simp
qed

theorem cats_request_witness:
  "fst (searxngSearchHandler (stubEnv ok200) exampleClient catsArguments) =
     [getRequest ''http://127.0.0.1:8080/search?categories=general&engines=google&format=json&language=en&q=cats&safesearch=0'']"
proof -
  have 1: "ParseURL (stubEnv ok200) url = None" for url by (simp add: stubEnv_def)
  have 2: "catsURL exampleClient = ''http://127.0.0.1:8080/search?categories=general&engines=google&format=json&language=en&q=cats&safesearch=0''"
    by code_simp
  show ?thesis using cats_request [of "stubEnv ok200" exampleClient] by (simp add: 1 2)
qed

text \<open>
  Claim C4 as stated fails: with a backend stub, the request of the call has the
  parameter \<open>safesearch=0\<close> beside the five of the claim.
\<close>

theorem cats_request_counterexample:
  "map ReqURL (fst (searxngSearchHandler (stubEnv ok200) exampleClient catsArguments)) =
     [''http://127.0.0.1:8080/search?categories=general&engines=google&format=json&language=en&q=cats&safesearch=0'']
   \<and> set (searchValues (searxngSearchParams (stubEnv ok200) catsArguments ''cats'')) \<noteq>
       {(''q'', [''cats'']), (''format'', [''json'']), (''categories'', [''general'']),
        (''engines'', [''google'']), (''language'', [''en''])}"
  by code_simp


lemma Query_params [simp]:
  "Query (searxngSearchParams env args q) = q"
  "Query (searxngImageSearchParams env args q) = q"
  "Query (searxngNewsSearchParams env args q) = q"
  by (simp_all add: searxngSearchParams_def searxngImageSearchParams_def
        searxngNewsSearchParams_def Let_def split: option.splits)

lemma q_in_encodedPairs: "''q='' @ QueryEscape (Query p) \<in> set (encodedPairs (searchValues p))"
  by (simp add: encodedPairs_searchValues)

text \<open>
  Claim C9. The parameter \<open>q\<close> is in the query string whatever the query is
  (\<open>q_in_encodedPairs\<close> above). A handler called with the empty string as its query
  does not answer with the input error: it goes on to the request (the one request
  of \<open>Search\<close>, unless the URL is rejected), whose query values hold \<open>q\<close> with the
  empty string, written \<open>q=\<close> in the query string. This holds for the general, the
  image and the news search.
\<close>

theorem empty_query_is_sent:
  assumes "args ''query'' = Some (VString [])"
  shows "snd (searxngSearchHandler env c args) \<noteq> Inl ''query must be a string''
       \<and> snd (searxngImageSearchHandler env c args) \<noteq> Inl ''query must be a string''
       \<and> snd (searxngNewsSearchHandler env c args) \<noteq> Inl ''query must be a string''
       \<and> fst (searxngSearchHandler env c args) =
           (case ParseURL env (searchRequestURL c (searxngSearchParams env args [])) of
              Some e \<Rightarrow> []
            | None \<Rightarrow> [getRequest (searchRequestURL c (searxngSearchParams env args []))])
       \<and> fst (searxngImageSearchHandler env c args) =
           (case ParseURL env (searchRequestURL c (searxngImageSearchParams env args [])) of
              Some e \<Rightarrow> []
            | None \<Rightarrow> [getRequest (searchRequestURL c (searxngImageSearchParams env args []))])
       \<and> fst (searxngNewsSearchHandler env c args) =
           (case ParseURL env (searchRequestURL c (searxngNewsSearchParams env args [])) of
              Some e \<Rightarrow> []
            | None \<Rightarrow> [getRequest (searchRequestURL c (searxngNewsSearchParams env args []))])
       \<and> (\<forall>p \<in> {searxngSearchParams env args [], searxngImageSearchParams env args [],
                 searxngNewsSearchParams env args []}.
             map_of (searchValues p) ''q'' = Some [[]]
             \<and> ''q='' \<in> set (encodedPairs (searchValues p)))"
proof -
  from assms have q: "asString (args ''query'') = Some []"
    by (simp add: asString_def)
  have 1: "snd (searxngSearchHandler env c args) \<noteq> Inl ''query must be a string''"
    "snd (searxngImageSearchHandler env c args) \<noteq> Inl ''query must be a string''"
    "snd (searxngNewsSearchHandler env c args) \<noteq> Inl ''query must be a string''"
    using q by (simp_all add: handler_error_not_input)
  have 2: "fst (searxngSearchHandler env c args) =
           (case ParseURL env (searchRequestURL c (searxngSearchParams env args [])) of
              Some e \<Rightarrow> []
            | None \<Rightarrow> [getRequest (searchRequestURL c (searxngSearchParams env args []))])"
    by (simp add: searxngSearchHandler_net [where args = args, OF q] Search_net)
  have 3: "fst (searxngImageSearchHandler env c args) =
           (case ParseURL env (searchRequestURL c (searxngImageSearchParams env args [])) of
              Some e \<Rightarrow> []
            | None \<Rightarrow> [getRequest (searchRequestURL c (searxngImageSearchParams env args []))])"
    by (simp add: searxngImageSearchHandler_net [where args = args, OF q] Search_net)
  have 4: "fst (searxngNewsSearchHandler env c args) =
           (case ParseURL env (searchRequestURL c (searxngNewsSearchParams env args [])) of
              Some e \<Rightarrow> []
            | None \<Rightarrow> [getRequest (searchRequestURL c (searxngNewsSearchParams env args []))])"
    by (simp add: searxngNewsSearchHandler_net [where args = args, OF q] Search_net)
  have 5: "map_of (searchValues p) ''q'' = Some [[]] \<and> ''q='' \<in> set (encodedPairs (searchValues p))"
    if "Query p = []" for p
    using that q_in_encodedPairs [of p] by (simp add: searchValues_eq)
  have 6: "\<forall>p \<in> {searxngSearchParams env args [], searxngImageSearchParams env args [],
                 searxngNewsSearchParams env args []}.
             map_of (searchValues p) ''q'' = Some [[]]
             \<and> ''q='' \<in> set (encodedPairs (searchValues p))"
    using 5 by auto
  from 1 2 3 4 6 show ?thesis by blast
qed

theorem empty_query_is_sent_witness:
  "emptyQueryArguments ''query'' = Some (VString [])
   \<and> map ReqURL (fst (searxngSearchHandler (stubEnv ok200) exampleClient emptyQueryArguments)) =
       [''http://127.0.0.1:8080/search?categories=general&engines=google&format=json&language=en&q=&safesearch=0'']
   \<and> snd (searxngSearchHandler (stubEnv ok200) exampleClient emptyQueryArguments)
       \<noteq> Inl ''query must be a string''"
proof -
  have h: "emptyQueryArguments ''query'' = Some (VString [])"
    by (simp add: emptyQueryArguments_def)
  have 1: "ParseURL (stubEnv ok200) url = None" for url by (simp add: stubEnv_def)
  have 2: "searchRequestURL exampleClient (searxngSearchParams (stubEnv ok200) emptyQueryArguments [])
     = ''http://127.0.0.1:8080/search?categories=general&engines=google&format=json&language=en&q=&safesearch=0''"
    by code_simp
  show ?thesis
    using empty_query_is_sent [where args = emptyQueryArguments and env = "stubEnv ok200"
        and c = exampleClient, OF h] h
    by (simp add: 1 2 getRequest_def)
qed


subsection \<open>The handlers: arguments\<close>

lemma searxngSearchParams_cong:
  assumes "asString (a ''categories'') = asString (b ''categories'')"
    and "asString (a ''engines'') = asString (b ''engines'')"
    and "asString (a ''language'') = asString (b ''language'')"
    and "asFloat64 (a ''page'') = asFloat64 (b ''page'')"
    and "asString (a ''time_range'') = asString (b ''time_range'')"
    and "asFloat64 (a ''safe_search'') = asFloat64 (b ''safe_search'')"
  shows "searxngSearchParams env a q = searxngSearchParams env b q"
  using assms by (simp add: searxngSearchParams_def)

lemma searxngImageSearchParams_cong:
  assumes "asString (a ''engines'') = asString (b ''engines'')"
    and "asFloat64 (a ''page'') = asFloat64 (b ''page'')"
  shows "searxngImageSearchParams env a q = searxngImageSearchParams env b q"
  using assms by (simp add: searxngImageSearchParams_def)

lemma searxngNewsSearchParams_cong:
  assumes "asString (a ''time_range'') = asString (b ''time_range'')"
    and "asString (a ''language'') = asString (b ''language'')"
    and "asFloat64 (a ''page'') = asFloat64 (b ''page'')"
  shows "searxngNewsSearchParams env a q = searxngNewsSearchParams env b q"
  using assms by (simp add: searxngNewsSearchParams_def)

lemma searxngSearchHandler_cong:
  assumes "asString (a ''query'') = asString (b ''query'')"
    and "\<And>q. searxngSearchParams env a q = searxngSearchParams env b q"
  shows "searxngSearchHandler env c a = searxngSearchHandler env c b"
  using assms by (simp add: searxngSearchHandler_def cong: option.case_cong)

lemma searxngImageSearchHandler_cong:
  assumes "asString (a ''query'') = asString (b ''query'')"
    and "\<And>q. searxngImageSearchParams env a q = searxngImageSearchParams env b q"
  shows "searxngImageSearchHandler env c a = searxngImageSearchHandler env c b"
  using assms by (simp add: searxngImageSearchHandler_def cong: option.case_cong)

lemma searxngNewsSearchHandler_cong:
  assumes "asString (a ''query'') = asString (b ''query'')"
    and "\<And>q. searxngNewsSearchParams env a q = searxngNewsSearchParams env b q"
  shows "searxngNewsSearchHandler env c a = searxngNewsSearchHandler env c b"
  using assms by (simp add: searxngNewsSearchHandler_def cong: option.case_cong)

lemma asString_wrong_type:
  "(\<forall>s. v \<noteq> VString s) \<Longrightarrow> asString ((args(k \<mapsto> v)) k') = asString ((args(k := None)) k')"
  by (cases v) (simp_all add: asString_def)

lemma asFloat64_wrong_type:
  "(\<forall>f. v \<noteq> VFloat f) \<Longrightarrow> asFloat64 ((args(k \<mapsto> v)) k') = asFloat64 ((args(k := None)) k')"
  by (cases v) (simp_all add: asFloat64_def)

lemma lookup_other:
  "k \<noteq> k' \<Longrightarrow> asString ((args(k \<mapsto> v)) k') = asString ((args(k := None)) k')"
  "k \<noteq> k' \<Longrightarrow> asFloat64 ((args(k \<mapsto> v)) k') = asFloat64 ((args(k := None)) k')"
  by simp_all

lemma general_wrong_type:
  assumes "wrongType {''categories'', ''engines'', ''language'', ''time_range''}
             {''page'', ''safe_search''} k v"
  shows "searxngSearchHandler env c (args(k \<mapsto> v)) = searxngSearchHandler env c (args(k := None))"
proof (rule searxngSearchHandler_cong)
  from assms show "asString ((args(k \<mapsto> v)) ''query'') = asString ((args(k := None)) ''query'')"
    by (auto simp: wrongType_def)
next
  fix q
  show "searxngSearchParams env (args(k \<mapsto> v)) q = searxngSearchParams env (args(k := None)) q"
  proof (rule searxngSearchParams_cong)
    show "asString ((args(k \<mapsto> v)) ''categories'') = asString ((args(k := None)) ''categories'')"
      using assms asString_wrong_type [of v args k "''categories''"]
      by (auto simp: wrongType_def)
    show "asString ((args(k \<mapsto> v)) ''engines'') = asString ((args(k := None)) ''engines'')"
      using assms asString_wrong_type [of v args k "''engines''"]
      by (auto simp: wrongType_def)
    show "asString ((args(k \<mapsto> v)) ''language'') = asString ((args(k := None)) ''language'')"
      using assms asString_wrong_type [of v args k "''language''"]
      by (auto simp: wrongType_def)
    show "asString ((args(k \<mapsto> v)) ''time_range'') = asString ((args(k := None)) ''time_range'')"
      using assms asString_wrong_type [of v args k "''time_range''"]
      by (auto simp: wrongType_def)
    show "asFloat64 ((args(k \<mapsto> v)) ''page'') = asFloat64 ((args(k := None)) ''page'')"
      using assms asFloat64_wrong_type [of v args k "''page''"]
      by (auto simp: wrongType_def)
    show "asFloat64 ((args(k \<mapsto> v)) ''safe_search'') = asFloat64 ((args(k := None)) ''safe_search'')"
      using assms asFloat64_wrong_type [of v args k "''safe_search''"]
      by (auto simp: wrongType_def)
  qed
qed

lemma image_wrong_type:
  assumes "wrongType {''engines''} {''page''} k v"
  shows "searxngImageSearchHandler env c (args(k \<mapsto> v)) =
         searxngImageSearchHandler env c (args(k := None))"
proof (rule searxngImageSearchHandler_cong)
  from assms show "asString ((args(k \<mapsto> v)) ''query'') = asString ((args(k := None)) ''query'')"
    by (auto simp: wrongType_def)
next
  fix q
  show "searxngImageSearchParams env (args(k \<mapsto> v)) q =
        searxngImageSearchParams env (args(k := None)) q"
  proof (rule searxngImageSearchParams_cong)
    show "asString ((args(k \<mapsto> v)) ''engines'') = asString ((args(k := None)) ''engines'')"
      using assms asString_wrong_type [of v args k "''engines''"]
      by (auto simp: wrongType_def)
    show "asFloat64 ((args(k \<mapsto> v)) ''page'') = asFloat64 ((args(k := None)) ''page'')"
      using assms asFloat64_wrong_type [of v args k "''page''"]
      by (auto simp: wrongType_def)
  qed
qed

lemma news_wrong_type:
  assumes "wrongType {''time_range'', ''language''} {''page''} k v"
  shows "searxngNewsSearchHandler env c (args(k \<mapsto> v)) =
         searxngNewsSearchHandler env c (args(k := None))"
proof (rule searxngNewsSearchHandler_cong)
  from assms show "asString ((args(k \<mapsto> v)) ''query'') = asString ((args(k := None)) ''query'')"
    by (auto simp: wrongType_def)
next
  fix q
  show "searxngNewsSearchParams env (args(k \<mapsto> v)) q =
        searxngNewsSearchParams env (args(k := None)) q"
  proof (rule searxngNewsSearchParams_cong)
    show "asString ((args(k \<mapsto> v)) ''time_range'') = asString ((args(k := None)) ''time_range'')"
      using assms asString_wrong_type [of v args k "''time_range''"]
      by (auto simp: wrongType_def)
    show "asString ((args(k \<mapsto> v)) ''language'') = asString ((args(k := None)) ''language'')"
      using assms asString_wrong_type [of v args k "''language''"]
      by (auto simp: wrongType_def)
    show "asFloat64 ((args(k \<mapsto> v)) ''page'') = asFloat64 ((args(k := None)) ''page'')"
      using assms asFloat64_wrong_type [of v args k "''page''"]
      by (auto simp: wrongType_def)
  qed
qed

lemma asString_None_iff: "asString x = None \<longleftrightarrow> (\<forall>s. x \<noteq> Some (VString s))"
  by (auto simp: asString_def split: option.splits iface.splits)

text \<open>
  Claim C3. When the argument \<open>query\<close> is absent or is not a string, the general, the
  image and the news search handler return the error \<open>query must be a string\<close> and have
  made no request to the network. An optional argument of a handler that is present
  with a value of the wrong type (not a string for \<open>categories\<close>, \<open>engines\<close>,
  \<open>language\<close>, \<open>time_range\<close>; not a number for \<open>page\<close>, \<open>safe_search\<close>) is ignored: the
  handler returns what it returns without that argument, requests included.
\<close>

theorem input_error_and_wrong_types:
  "((\<forall>s. args ''query'' \<noteq> Some (VString s)) \<longrightarrow>
      searxngSearchHandler env c args = ([], Inl ''query must be a string'')
      \<and> searxngImageSearchHandler env c args = ([], Inl ''query must be a string'')
      \<and> searxngNewsSearchHandler env c args = ([], Inl ''query must be a string''))
   \<and> (wrongType {''categories'', ''engines'', ''language'', ''time_range''}
         {''page'', ''safe_search''} k v \<longrightarrow>
       searxngSearchHandler env c (args(k \<mapsto> v)) = searxngSearchHandler env c (args(k := None)))
   \<and> (wrongType {''engines''} {''page''} k v \<longrightarrow>
       searxngImageSearchHandler env c (args(k \<mapsto> v)) =
       searxngImageSearchHandler env c (args(k := None)))
   \<and> (wrongType {''time_range'', ''language''} {''page''} k v \<longrightarrow>
       searxngNewsSearchHandler env c (args(k \<mapsto> v)) =
       searxngNewsSearchHandler env c (args(k := None)))"
proof -
  have "searxngSearchHandler env c args = ([], Inl ''query must be a string'')
      \<and> searxngImageSearchHandler env c args = ([], Inl ''query must be a string'')
      \<and> searxngNewsSearchHandler env c args = ([], Inl ''query must be a string'')"
    if "\<forall>s. args ''query'' \<noteq> Some (VString s)"
  proof -
    from that have "asString (args ''query'') = None" by (simp add: asString_None_iff)
    then show ?thesis
      by (simp add: searxngSearchHandler_def searxngImageSearchHandler_def
            searxngNewsSearchHandler_def)
  qed
  then show ?thesis
    using general_wrong_type [of k v env c args] image_wrong_type [of k v env c args]
      news_wrong_type [of k v env c args]
    by blast
qed

theorem input_error_and_wrong_types_witness:
  "(\<forall>s. wrongArguments ''query'' \<noteq> Some (VString s))
   \<and> searxngSearchHandler (stubEnv ok200) exampleClient wrongArguments =
       ([], Inl ''query must be a string'')
   \<and> searxngImageSearchHandler (stubEnv ok200) exampleClient wrongArguments =
       ([], Inl ''query must be a string'')
   \<and> searxngNewsSearchHandler (stubEnv ok200) exampleClient wrongArguments =
       ([], Inl ''query must be a string'')
   \<and> wrongType {''categories'', ''engines'', ''language'', ''time_range''}
         {''page'', ''safe_search''} ''categories'' (VFloat (Finite 5))
   \<and> searxngSearchHandler (stubEnv ok200) exampleClient
         (catsArguments(''categories'' \<mapsto> VFloat (Finite 5))) =
       searxngSearchHandler (stubEnv ok200) exampleClient catsArguments
   \<and> wrongType {''engines''} {''page''} ''page'' (VString ''2'')
   \<and> searxngImageSearchHandler (stubEnv ok200) exampleClient
         (catsArguments(''page'' \<mapsto> VString ''2'')) =
       searxngImageSearchHandler (stubEnv ok200) exampleClient catsArguments
   \<and> wrongType {''time_range'', ''language''} {''page''} ''language'' VNil
   \<and> searxngNewsSearchHandler (stubEnv ok200) exampleClient
         (catsArguments(''language'' \<mapsto> VNil)) =
       searxngNewsSearchHandler (stubEnv ok200) exampleClient catsArguments"
proof -
  have h1: "\<forall>s. wrongArguments ''query'' \<noteq> Some (VString s)"
    by (simp add: wrongArguments_def)
  have h2: "wrongType {''categories'', ''engines'', ''language'', ''time_range''}
         {''page'', ''safe_search''} ''categories'' (VFloat (Finite 5))"
    by (simp add: wrongType_def)
  have h3: "wrongType {''engines''} {''page''} ''page'' (VString ''2'')"
    by (simp add: wrongType_def)
  have h4: "wrongType {''time_range'', ''language''} {''page''} ''language'' VNil"
    by (simp add: wrongType_def)
  have e: "catsArguments(''categories'' := None) = catsArguments"
    "catsArguments(''page'' := None) = catsArguments"
    "catsArguments(''language'' := None) = catsArguments"
    by (auto simp: catsArguments_def)
  have 1: "searxngSearchHandler (stubEnv ok200) exampleClient wrongArguments =
       ([], Inl ''query must be a string'')
   \<and> searxngImageSearchHandler (stubEnv ok200) exampleClient wrongArguments =
       ([], Inl ''query must be a string'')
   \<and> searxngNewsSearchHandler (stubEnv ok200) exampleClient wrongArguments =
       ([], Inl ''query must be a string'')"
    using input_error_and_wrong_types [where args = wrongArguments and env = "stubEnv ok200"
        and c = exampleClient] h1 by blast
  have 2: "searxngSearchHandler (stubEnv ok200) exampleClient
         (catsArguments(''categories'' \<mapsto> VFloat (Finite 5))) =
       searxngSearchHandler (stubEnv ok200) exampleClient catsArguments"
    using input_error_and_wrong_types [where args = catsArguments and env = "stubEnv ok200"
        and c = exampleClient and k = "''categories''" and v = "VFloat (Finite 5)"] h2 e
    by simp
  have 3: "searxngImageSearchHandler (stubEnv ok200) exampleClient
         (catsArguments(''page'' \<mapsto> VString ''2'')) =
       searxngImageSearchHandler (stubEnv ok200) exampleClient catsArguments"
    using input_error_and_wrong_types [where args = catsArguments and env = "stubEnv ok200"
        and c = exampleClient and k = "''page''" and v = "VString ''2''"] h3 e
    by simp
  have 4: "searxngNewsSearchHandler (stubEnv ok200) exampleClient
         (catsArguments(''language'' \<mapsto> VNil)) =
       searxngNewsSearchHandler (stubEnv ok200) exampleClient catsArguments"
    using input_error_and_wrong_types [where args = catsArguments and env = "stubEnv ok200"
        and c = exampleClient and k = "''language''" and v = VNil] h4 e
    by simp
  from h1 h2 h3 h4 1 2 3 4 show ?thesis by blast
qed


lemma image_params_fields:
  "Categories (searxngImageSearchParams env args q) = [''images'']"
  "TimeRange (searxngImageSearchParams env args q) = []"
  "Language (searxngImageSearchParams env args q) = ''en''"
  "SafeSearch (searxngImageSearchParams env args q) = 0"
  "Engines (searxngImageSearchParams env args q) =
     (case args ''engines'' of
        Some (VString s) \<Rightarrow> if s = [] then [''google images''] else splitTrim s
      | _ \<Rightarrow> [''google images''])"
  by (simp_all add: searxngImageSearchParams_def Let_def asString_def
        split: option.splits iface.splits)

text \<open>
  Claim C7. The image search reads the arguments \<open>query\<close>, \<open>engines\<close> and \<open>page\<close> only:
  two argument maps that agree on these three give the same result, so that an
  argument \<open>categories\<close>, \<open>language\<close>, \<open>time_range\<close> or \<open>safe_search\<close>, whatever its
  value, changes neither the parameters of the search nor what the handler returns.
  The categories of the parameters are always \<open>images\<close>, the time range is empty
  (the language is \<open>en\<close> and the safe-search level 0), and the engines are
  \<open>google images\<close> unless the argument \<open>engines\<close> is a string that is not empty.
\<close>

theorem image_search_arguments:
  "(a ''query'' = b ''query'' \<and> a ''engines'' = b ''engines'' \<and> a ''page'' = b ''page'' \<longrightarrow>
      searxngImageSearchHandler env c a = searxngImageSearchHandler env c b)
   \<and> (k \<in> {''categories'', ''language'', ''time_range'', ''safe_search''} \<longrightarrow>
        searxngImageSearchParams env (args(k \<mapsto> v)) q = searxngImageSearchParams env args q
        \<and> searxngImageSearchHandler env c (args(k \<mapsto> v)) =
            searxngImageSearchHandler env c args)
   \<and> Categories (searxngImageSearchParams env args q) = [''images'']
   \<and> TimeRange (searxngImageSearchParams env args q) = []
   \<and> Language (searxngImageSearchParams env args q) = ''en''
   \<and> SafeSearch (searxngImageSearchParams env args q) = 0
   \<and> Engines (searxngImageSearchParams env args q) =
       (case args ''engines'' of
          Some (VString s) \<Rightarrow> if s = [] then [''google images''] else splitTrim s
        | _ \<Rightarrow> [''google images''])"
proof -
  have 1: "searxngImageSearchHandler env c a = searxngImageSearchHandler env c b"
    if "a ''query'' = b ''query'' \<and> a ''engines'' = b ''engines'' \<and> a ''page'' = b ''page''"
    using that
    by (intro searxngImageSearchHandler_cong searxngImageSearchParams_cong) simp_all
  have 2: "searxngImageSearchParams env (args(k \<mapsto> v)) q = searxngImageSearchParams env args q
        \<and> searxngImageSearchHandler env c (args(k \<mapsto> v)) =
            searxngImageSearchHandler env c args"
    if "k \<in> {''categories'', ''language'', ''time_range'', ''safe_search''}"
  proof
    show "searxngImageSearchParams env (args(k \<mapsto> v)) q = searxngImageSearchParams env args q"
      using that by (intro searxngImageSearchParams_cong) auto
    show "searxngImageSearchHandler env c (args(k \<mapsto> v)) =
            searxngImageSearchHandler env c args"
      using that
      by (intro searxngImageSearchHandler_cong searxngImageSearchParams_cong) auto
  qed
  from 1 2 image_params_fields [of env args q] show ?thesis by blast
qed

theorem image_search_arguments_witness:
  "searxngImageSearchParams (stubEnv ok200) (imageArguments(''categories'' \<mapsto> VString ''news'')) ''cats''
     = \<lparr>Query = ''cats'', Categories = [''images''], Engines = [''bing images'', ''flickr''],
        Language = ''en'', PageNo = 2, TimeRange = [], SafeSearch = 0\<rparr>
   \<and> searxngImageSearchHandler (stubEnv ok200) exampleClient
        (imageArguments(''time_range'' \<mapsto> VString ''day'')) =
       searxngImageSearchHandler (stubEnv ok200) exampleClient imageArguments
   \<and> searxngImageSearchHandler (stubEnv ok200) exampleClient
        (imageArguments(''safe_search'' \<mapsto> VFloat (Finite 2), ''language'' \<mapsto> VString ''de'')) =
       searxngImageSearchHandler (stubEnv ok200) exampleClient imageArguments
   \<and> Engines (searxngImageSearchParams (stubEnv ok200) catsArguments ''cats'') = [''google images'']"
proof -
  have e1: "searxngImageSearchParams (stubEnv ok200) imageArguments ''cats''
     = \<lparr>Query = ''cats'', Categories = [''images''], Engines = [''bing images'', ''flickr''],
        Language = ''en'', PageNo = 2, TimeRange = [], SafeSearch = 0\<rparr>"
    by code_simp
  note t1 = image_search_arguments [where k = "''categories''" and args = imageArguments
        and v = "VString ''news''" and env = "stubEnv ok200" and q = "''cats''"
        and c = exampleClient and a = imageArguments and b = imageArguments]
  have 1: "searxngImageSearchParams (stubEnv ok200) (imageArguments(''categories'' \<mapsto> VString ''news'')) ''cats''
     = \<lparr>Query = ''cats'', Categories = [''images''], Engines = [''bing images'', ''flickr''],
        Language = ''en'', PageNo = 2, TimeRange = [], SafeSearch = 0\<rparr>"
    using t1 e1 by simp
  note t2 = image_search_arguments [where k = "''time_range''" and args = imageArguments
        and v = "VString ''day''" and env = "stubEnv ok200" and q = "''cats''"
        and c = exampleClient and a = imageArguments and b = imageArguments]
  have 2: "searxngImageSearchHandler (stubEnv ok200) exampleClient
        (imageArguments(''time_range'' \<mapsto> VString ''day'')) =
       searxngImageSearchHandler (stubEnv ok200) exampleClient imageArguments"
    using t2 by simp
  note t3 = image_search_arguments [where k = "''time_range''" and args = imageArguments
        and v = "VString ''day''" and env = "stubEnv ok200" and q = "''cats''"
        and c = exampleClient and b = imageArguments and
        a = "imageArguments(''safe_search'' \<mapsto> VFloat (Finite 2), ''language'' \<mapsto> VString ''de'')"]
  have 3: "searxngImageSearchHandler (stubEnv ok200) exampleClient
        (imageArguments(''safe_search'' \<mapsto> VFloat (Finite 2), ''language'' \<mapsto> VString ''de'')) =
       searxngImageSearchHandler (stubEnv ok200) exampleClient imageArguments"
    using t3 by simp
  note t4 = image_search_arguments [where k = "''time_range''" and args = catsArguments
        and v = "VString ''day''" and env = "stubEnv ok200" and q = "''cats''"
        and c = exampleClient and a = imageArguments and b = imageArguments]
  have 4: "Engines (searxngImageSearchParams (stubEnv ok200) catsArguments ''cats'') = [''google images'']"
    using t4 by (simp add: catsArguments_def)
  from 1 2 3 4 show ?thesis by blast
qed


subsection \<open>The handlers: coercion of the arguments\<close>

lemma Split_nonempty: "Split s c \<noteq> []"
  by (induction s) (auto split: list.splits)

lemma Join_Cons_Cons: "Join ((a # x) # xs) sep = a # Join (x # xs) sep"
  by (cases xs) auto

lemma Join_Nil_Cons: "xs \<noteq> [] \<Longrightarrow> Join ([] # xs) sep = sep @ Join xs sep"
  by (cases xs) auto

lemma Join_Split: "Join (Split s c) [c] = s"
proof (induction s)
  case Nil
  show ?case by simp
next
  case (Cons a s)
  show ?case
  proof (cases "a = c")
    case True
    then show ?thesis using Cons Split_nonempty [of s c] by (simp add: Join_Nil_Cons)
  next
    case False
    obtain p ps where ps: "Split s c = p # ps"
      using Split_nonempty [of s c] by (cases "Split s c") auto
    with False Cons show ?thesis by (simp add: Join_Cons_Cons)
  qed
qed

lemma Split_no_sep: "p \<in> set (Split s c) \<Longrightarrow> c \<notin> set p"
proof (induction s arbitrary: p)
  case Nil
  then show ?case by simp
next
  case (Cons a s)
  obtain q qs where qs: "Split s c = q # qs"
    using Split_nonempty [of s c] by (cases "Split s c") auto
  show ?case
  proof (cases "a = c")
    case True
    with Cons show ?thesis by auto
  next
    case False
    with Cons.prems qs have "p = a # q \<or> p \<in> set qs" by auto
    then show ?thesis
    proof
      assume "p = a # q"
      moreover have "c \<notin> set q" using Cons.IH [of q] qs by simp
      ultimately show ?thesis using False by auto
    next
      assume "p \<in> set qs"
      then show ?thesis using Cons.IH [of p] qs by simp
    qed
  qed
qed

lemma find_None_D: "List.find P xs = None \<Longrightarrow> x \<in> set xs \<Longrightarrow> \<not> P x"
  by (simp add: find_None_iff)

lemma leadingSpace_TrimLeftSpace: "leadingSpace (TrimLeftSpace s) = None"
proof (induction s rule: TrimLeftSpace.induct)
  case (1 s)
  show ?case
  proof (cases "leadingSpace s")
    case None
    then show ?thesis by (subst TrimLeftSpace.simps) simp
  next
    case (Some p)
    with 1 show ?thesis by (subst TrimLeftSpace.simps) simp
  qed
qed

lemma trailingSpace_TrimRightSpace: "trailingSpace (TrimRightSpace s) = None"
proof (induction s rule: TrimRightSpace.induct)
  case (1 s)
  show ?case
  proof (cases "trailingSpace s")
    case None
    then show ?thesis by (subst TrimRightSpace.simps) simp
  next
    case (Some p)
    with 1 show ?thesis by (subst TrimRightSpace.simps) simp
  qed
qed

lemma suffix_TrimLeftSpace: "suffix (TrimLeftSpace s) s"
proof (induction s rule: TrimLeftSpace.induct)
  case (1 s)
  show ?case
  proof (cases "leadingSpace s")
    case None
    then show ?thesis by (subst TrimLeftSpace.simps) simp
  next
    case (Some p)
    with 1 have "suffix (TrimLeftSpace (drop (length p) s)) (drop (length p) s)" by simp
    then have "suffix (TrimLeftSpace (drop (length p) s)) s"
      using suffix_drop suffix_order.trans by blast
    with Some show ?thesis by (subst TrimLeftSpace.simps) simp
  qed
qed

lemma prefix_TrimRightSpace: "prefix (TrimRightSpace s) s"
proof (induction s rule: TrimRightSpace.induct)
  case (1 s)
  show ?case
  proof (cases "trailingSpace s")
    case None
    then show ?thesis by (subst TrimRightSpace.simps) simp
  next
    case (Some p)
    with 1 have "prefix (TrimRightSpace (take (length s - length p) s)) (take (length s - length p) s)"
      by simp
    then have "prefix (TrimRightSpace (take (length s - length p) s)) s"
      using take_is_prefix prefix_order.trans by blast
    with Some show ?thesis by (subst TrimRightSpace.simps) simp
  qed
qed

lemma leadingSpace_prefix:
  assumes "leadingSpace t = None" and "prefix s t"
  shows "leadingSpace s = None"
proof -
  have "\<not> prefix p s" if "p \<in> set spaceRunes" for p
  proof
    assume "prefix p s"
    with assms(2) have "prefix p t" using prefix_order.trans by blast
    moreover have "\<not> prefix p t"
      using assms(1) that unfolding leadingSpace_def by (rule find_None_D)
    ultimately show False by simp
  qed
  then show ?thesis by (simp add: leadingSpace_def find_None_iff)
qed

lemma TrimSpace_no_space:
  "leadingSpace (TrimSpace s) = None \<and> trailingSpace (TrimSpace s) = None"
  unfolding TrimSpace_def
  using leadingSpace_prefix [OF leadingSpace_TrimLeftSpace prefix_TrimRightSpace]
    trailingSpace_TrimRightSpace by blast

lemma TrimSpace_inside: "\<exists>l r. s = l @ TrimSpace s @ r"
proof -
  obtain l where l: "s = l @ TrimLeftSpace s"
    using suffix_TrimLeftSpace [of s] by (auto simp: suffix_def)
  obtain r where r: "TrimLeftSpace s = TrimSpace s @ r"
    using prefix_TrimRightSpace [of "TrimLeftSpace s"] by (auto simp: prefix_def TrimSpace_def)
  from l r have "s = l @ TrimSpace s @ r" by simp
  then show ?thesis by blast
qed


lemma truncRat_towards_zero:
  "\<bar>of_int (truncRat r)\<bar> \<le> \<bar>r\<bar> \<and> \<bar>r\<bar> < \<bar>of_int (truncRat r)\<bar> + 1
   \<and> (0 \<le> r \<longrightarrow> 0 \<le> truncRat r) \<and> (r \<le> 0 \<longrightarrow> truncRat r \<le> 0)"
proof (cases "r < 0")
  case True
  define n where "n = \<lfloor>- r\<rfloor>"
  have a: "of_int n \<le> - r" and b: "- r < of_int n + 1"
    unfolding n_def using floor_correct [of "- r"] by simp_all
  have c: "0 \<le> n" unfolding n_def using True by simp
  have t: "truncRat r = - n" using True by (simp add: truncRat_def n_def)
  have "\<bar>of_int (- n) :: rat\<bar> = of_int n" using c by simp
  moreover have "\<bar>r\<bar> = - r" using True by simp
  ultimately show ?thesis unfolding t using a b c True by auto
next
  case False
  define n where "n = \<lfloor>r\<rfloor>"
  have a: "of_int n \<le> r" and b: "r < of_int n + 1"
    unfolding n_def using floor_correct [of r] by simp_all
  have c: "0 \<le> n" unfolding n_def using False by simp
  have t: "truncRat r = n" using False by (simp add: truncRat_def n_def)
  have "\<bar>of_int n :: rat\<bar> = of_int n" using c by simp
  moreover have "\<bar>r\<bar> = r" using False by simp
  ultimately show ?thesis unfolding t using a b c False by auto
qed

lemma splitTrim_nonempty: "splitTrim s \<noteq> []"
  by (simp add: splitTrim_def Split_nonempty)

lemma params_lists:
  "args ''categories'' = Some (VString s) \<Longrightarrow>
     Categories (searxngSearchParams env args q) = (if s = [] then [''general''] else splitTrim s)"
  "args ''engines'' = Some (VString s) \<Longrightarrow>
     Engines (searxngSearchParams env args q) = (if s = [] then [''google''] else splitTrim s)"
  "args ''engines'' = Some (VString s) \<Longrightarrow>
     Engines (searxngImageSearchParams env args q) =
       (if s = [] then [''google images''] else splitTrim s)"
  by (simp_all add: searxngSearchParams_def searxngImageSearchParams_def Let_def asString_def
        split: option.splits)

lemma params_page:
  assumes "args ''page'' = Some (VFloat (Finite r))" and "fitsInt (truncRat r)"
  shows "PageNo (searxngSearchParams env args q) = truncRat r"
    and "PageNo (searxngImageSearchParams env args q) = truncRat r"
    and "PageNo (searxngNewsSearchParams env args q) = truncRat r"
  using assms
  by (simp_all add: searxngSearchParams_def searxngImageSearchParams_def
        searxngNewsSearchParams_def Let_def asFloat64_def intOfFloat64_def split: option.splits)

text \<open>
  Claim C5, as amended. A \<open>categories\<close> or \<open>engines\<close> argument that is a string is
  replaced by the default list when it is the empty string, and otherwise split at
  the commas (the pieces hold no comma and give the argument back when joined with
  commas), each piece trimmed: an element is a part of its piece and neither starts
  nor ends with white space, and
  \<open>" general , news "\<close> becomes \<open>["general", "news"]\<close>. The list of a string that is not
  empty is never empty: a blank piece stays in it as the empty string. A numeric
  \<open>page\<close> is truncated towards zero (the integer has the sign of the number and its
  absolute value is the integer part), as long as the truncated value fits the 64-bit
  \<^verbatim>\<open>int\<close>.
\<close>

theorem argument_coercion:
  "(args ''categories'' = Some (VString s) \<longrightarrow>
      Categories (searxngSearchParams env args q) = (if s = [] then [''general''] else splitTrim s))
   \<and> (args ''engines'' = Some (VString s) \<longrightarrow>
      Engines (searxngSearchParams env args q) = (if s = [] then [''google''] else splitTrim s)
      \<and> Engines (searxngImageSearchParams env args q) =
          (if s = [] then [''google images''] else splitTrim s))
   \<and> splitTrim s = map TrimSpace (Split s (CHR '',''))
   \<and> Join (Split s (CHR '','')) '','' = s
   \<and> (\<forall>p \<in> set (Split s (CHR '','')). CHR '','' \<notin> set p)
   \<and> (\<forall>x \<in> set (splitTrim s). leadingSpace x = None \<and> trailingSpace x = None)
   \<and> (\<forall>p. \<exists>l r. p = l @ TrimSpace p @ r)
   \<and> splitTrim s \<noteq> []
   \<and> splitTrim '' general , news '' = [''general'', ''news'']
   \<and> (args ''page'' = Some (VFloat (Finite r)) \<and> fitsInt (truncRat r) \<longrightarrow>
        PageNo (searxngSearchParams env args q) = truncRat r
        \<and> PageNo (searxngImageSearchParams env args q) = truncRat r
        \<and> PageNo (searxngNewsSearchParams env args q) = truncRat r)
   \<and> \<bar>of_int (truncRat r)\<bar> \<le> \<bar>r\<bar> \<and> \<bar>r\<bar> < \<bar>of_int (truncRat r)\<bar> + 1
   \<and> (0 \<le> r \<longrightarrow> 0 \<le> truncRat r) \<and> (r \<le> 0 \<longrightarrow> truncRat r \<le> 0)"
proof -
  have 1: "\<forall>x \<in> set (splitTrim s). leadingSpace x = None \<and> trailingSpace x = None"
    using TrimSpace_no_space by (auto simp: splitTrim_def)
  have 2: "splitTrim '' general , news '' = [''general'', ''news'']"
    by code_simp
  have 3: "\<forall>p \<in> set (Split s (CHR '','')). CHR '','' \<notin> set p"
    using Split_no_sep by blast
  have 4: "splitTrim s = map TrimSpace (Split s (CHR '',''))"
    by (simp add: splitTrim_def)
  show ?thesis
    using params_lists [of args s env q] params_page [of args r env q] 1 2 3 4
      Join_Split [of s "CHR '',''"] splitTrim_nonempty [of s] truncRat_towards_zero [of r]
      TrimSpace_inside
    by blast
qed

theorem argument_coercion_witness:
  "coercionArguments ''categories'' = Some (VString '' general , news '')
   \<and> Categories (searxngSearchParams (stubEnv ok200) coercionArguments ''cats'') =
       [''general'', ''news'']
   \<and> coercionArguments ''engines'' = Some (VString [])
   \<and> Engines (searxngSearchParams (stubEnv ok200) coercionArguments ''cats'') = [''google'']
   \<and> Engines (searxngImageSearchParams (stubEnv ok200) coercionArguments ''cats'') =
       [''google images'']
   \<and> coercionArguments ''page'' = Some (VFloat (Finite (- (7 / 2))))
   \<and> fitsInt (truncRat (- (7 / 2)))
   \<and> PageNo (searxngSearchParams (stubEnv ok200) coercionArguments ''cats'') = - 3"
proof -
  have h1: "coercionArguments ''categories'' = Some (VString '' general , news '')"
    and h2: "coercionArguments ''engines'' = Some (VString [])"
    and h3: "coercionArguments ''page'' = Some (VFloat (Finite (- (7 / 2))))"
    by (simp_all add: coercionArguments_def)
  have "\<lfloor>7 / 2 :: rat\<rfloor> = 3" by (rule floor_unique) simp_all
  then have t: "truncRat (- (7 / 2)) = - 3" by (simp add: truncRat_def)
  have h4: "fitsInt (truncRat (- (7 / 2)))" by (simp add: t fitsInt_def)
  note a = argument_coercion [where args = coercionArguments and s = "'' general , news ''"
      and env = "stubEnv ok200" and q = "''cats''" and r = "- (7 / 2)"]
  note b = argument_coercion [where args = coercionArguments and s = "[]"
      and env = "stubEnv ok200" and q = "''cats''" and r = "- (7 / 2)"]
  have e: "splitTrim '' general , news '' = [''general'', ''news'']" by code_simp
  have 1: "Categories (searxngSearchParams (stubEnv ok200) coercionArguments ''cats'') =
       [''general'', ''news'']"
    using a [THEN conjunct1, rule_format, OF h1] by (simp add: e)
  have 2: "Engines (searxngSearchParams (stubEnv ok200) coercionArguments ''cats'') = [''google'']
     \<and> Engines (searxngImageSearchParams (stubEnv ok200) coercionArguments ''cats'') =
       [''google images'']"
    using b [THEN conjunct2, THEN conjunct1, rule_format, OF h2] by simp
  have 3: "PageNo (searxngSearchParams (stubEnv ok200) coercionArguments ''cats'') = - 3"
    using a [THEN conjunct2, THEN conjunct2, THEN conjunct2, THEN conjunct2, THEN conjunct2,
        THEN conjunct2, THEN conjunct2, THEN conjunct2, THEN conjunct2, THEN conjunct1,
        rule_format, OF conjI, OF h3 h4]
    by (simp add: t)
  from h1 h2 h3 h4 1 2 3 show ?thesis by blast
qed

text \<open>
  Claim C5 as stated fails. For the argument \<open>" "\<close> the split and trimmed list has
  nothing but an empty string, and it is this list, not the default, that becomes the
  categories: the request has \<open>categories=\<close>. And the page \<open>2^63\<close>, which truncation
  leaves as it is, does not become that integer: the stub converts as amd64 does, to
  the smallest \<^verbatim>\<open>int\<close>.
\<close>

theorem blank_argument_counterexample:
  "splitTrim '' '' = [[]]
   \<and> Categories (searxngSearchParams (stubEnv ok200) blankArguments ''cats'') = [[]]
   \<and> Categories (searxngSearchParams (stubEnv ok200) blankArguments ''cats'') \<noteq> [''general'']
   \<and> map ReqURL (fst (searxngSearchHandler (stubEnv ok200) exampleClient blankArguments)) =
       [''http://127.0.0.1:8080/search?categories=&engines=google&format=json&language=en&q=cats&safesearch=0'']
   \<and> truncRat (2 ^ 63) = 2 ^ 63
   \<and> PageNo (searxngSearchParams (stubEnv ok200) blankArguments ''cats'') = - (2 ^ 63)"
proof -
  have 1: "splitTrim '' '' = [[]]" by code_simp
  have t: "truncRat 9223372036854775808 = 9223372036854775808"
    by (simp add: truncRat_def)
  have c: "asString (blankArguments ''categories'') = Some '' ''"
    "asString (blankArguments ''engines'') = None"
    "asString (blankArguments ''language'') = None"
    "asString (blankArguments ''time_range'') = None"
    "asString (blankArguments ''query'') = Some ''cats''"
    "asFloat64 (blankArguments ''safe_search'') = None"
    "asFloat64 (blankArguments ''page'') = Some (Finite (2 ^ 63))"
    by (simp_all add: blankArguments_def asString_def asFloat64_def)
  have p: "searxngSearchParams (stubEnv ok200) blankArguments ''cats'' =
     \<lparr>Query = ''cats'', Categories = [[]], Engines = [''google''],
      Language = ''en'', PageNo = - (2 ^ 63), TimeRange = [], SafeSearch = 0\<rparr>"
    by (simp add: searxngSearchParams_def c 1 intOfFloat64_def t fitsInt_def stubEnv_def)
  have pu: "ParseURL (stubEnv ok200) url = None" for url by (simp add: stubEnv_def)
  have u: "searchRequestURL exampleClient
       \<lparr>Query = ''cats'', Categories = [[]], Engines = [''google''],
        Language = ''en'', PageNo = - 9223372036854775808, TimeRange = [], SafeSearch = 0\<rparr> =
     ''http://127.0.0.1:8080/search?categories=&engines=google&format=json&language=en&q=cats&safesearch=0''"
    by code_simp
  have n: "fst (searxngSearchHandler (stubEnv ok200) exampleClient blankArguments) =
     [getRequest ''http://127.0.0.1:8080/search?categories=&engines=google&format=json&language=en&q=cats&safesearch=0'']"
    by (simp add: searxngSearchHandler_net [where args = blankArguments, OF c(5)] Search_net p u
          pu)
  show ?thesis using 1 t p n by (simp add: getRequest_def)
qed


subsection \<open>The general search: the text returned\<close>

lemma searxngSearchResponse_eq:
  "searxngSearchResponse r =
     [(''query'', VString (RespQuery r)), (''number_of_results'', VInt (NumberOfResults r)),
      (''results'', Results_iface (Results r))]
     @ (if Answers r \<noteq> [] then [(''answers'', strings_iface (Answers r))] else [])
     @ (if Suggestions r \<noteq> [] then [(''suggestions'', strings_iface (Suggestions r))] else [])
     @ (if Corrections r \<noteq> [] then [(''corrections'', strings_iface (Corrections r))] else [])"
  by (simp add: searxngSearchResponse_def Let_def)

lemma sort_response:
  "sort_key fst
     ([(''query'', q), (''number_of_results'', n), (''results'', r)]
      @ (if b1 then [(''answers'', a)] else [])
      @ (if b2 then [(''suggestions'', s)] else [])
      @ (if b3 then [(''corrections'', c)] else []))
   = (if b1 then [(''answers'', a)] else [])
      @ (if b3 then [(''corrections'', c)] else [])
      @ [(''number_of_results'', n), (''query'', q), (''results'', r)]
      @ (if b2 then [(''suggestions'', s)] else [])"
  by (cases b1; cases b2; cases b3; simp)

lemma collect_strings: "collect (map (encode fmt d \<circ> VString) xs) = Inr (map quote xs)"
  by (induction xs) simp_all

lemma encode_strings: "encode fmt d (strings_iface xs) = Inr (bracket ''['' '']'' d (map quote xs))"
  by (simp add: strings_iface_def collect_strings)

lemma encode_response:
  "encode fmt 0 (VMap (searxngSearchResponse r)) =
     (case encode fmt 1 (Results_iface (Results r)) of
        Inl e \<Rightarrow> Inl e
      | Inr t \<Rightarrow>
          Inr (bracket ''{'' ''}'' 0
            ((if Answers r \<noteq> []
              then [quote ''answers'' @ '': '' @ bracket ''['' '']'' 1 (map quote (Answers r))]
              else [])
             @ (if Corrections r \<noteq> []
                then [quote ''corrections'' @ '': ''
                        @ bracket ''['' '']'' 1 (map quote (Corrections r))]
                else [])
             @ [quote ''number_of_results'' @ '': '' @ Itoa (NumberOfResults r),
                quote ''query'' @ '': '' @ quote (RespQuery r),
                quote ''results'' @ '': '' @ t]
             @ (if Suggestions r \<noteq> []
                then [quote ''suggestions'' @ '': ''
                        @ bracket ''['' '']'' 1 (map quote (Suggestions r))]
                else []))))"
  unfolding searxngSearchResponse_eq encode.simps sort_response
  by (cases "Answers r = []"; cases "Corrections r = []"; cases "Suggestions r = []";
      cases "encode fmt 1 (Results_iface (Results r))";
      simp add: member_def encode_strings)

lemma bracket_nonempty:
  "ts \<noteq> [] \<Longrightarrow>
   bracket l r d ts = l @ newline (Suc d) @ Join ts ('','' @ newline (Suc d)) @ newline d @ r"
  by (simp add: bracket_def)

lemma response_keys:
  "map_of (searxngSearchResponse r) ''query'' = Some (VString (RespQuery r))"
  "map_of (searxngSearchResponse r) ''number_of_results'' = Some (VInt (NumberOfResults r))"
  "map_of (searxngSearchResponse r) ''results'' = Some (Results_iface (Results r))"
  "map_of (searxngSearchResponse r) ''answers'' =
     (if Answers r \<noteq> [] then Some (strings_iface (Answers r)) else None)"
  "map_of (searxngSearchResponse r) ''suggestions'' =
     (if Suggestions r \<noteq> [] then Some (strings_iface (Suggestions r)) else None)"
  "map_of (searxngSearchResponse r) ''corrections'' =
     (if Corrections r \<noteq> [] then Some (strings_iface (Corrections r)) else None)"
  "map_of (searxngSearchResponse r) ''infoboxes'' = None"
  "fst ` set (searxngSearchResponse r) \<subseteq>
     {''query'', ''number_of_results'', ''results'', ''answers'', ''suggestions'', ''corrections''}"
  by (auto simp: searxngSearchResponse_eq split: if_splits)

text \<open>
  Claim C2. When the general search succeeds, the text it returns is that of one JSON
  object, the map the handler filled from the result of \<open>Search\<close>: it has the keys
  \<open>query\<close>, \<open>number_of_results\<close> and \<open>results\<close>, the keys \<open>answers\<close>, \<open>suggestions\<close> and
  \<open>corrections\<close> exactly when the list of that name in the result is not empty, never
  the key \<open>infoboxes\<close>, and no other key. The text has the members in the order of their
  keys, one on each line after a new line and two spaces, between \<open>{\<close> and a new line
  and \<open>}\<close>; nested values are indented two more spaces for each level (\<open>bracket\<close> and
  \<open>newline\<close> in \<open>encode\<close>).
\<close>

theorem general_search_payload:
  assumes "searxngSearchHandler env c args = (net, Inr payload)"
  shows "\<exists>q result t.
      args ''query'' = Some (VString q)
    \<and> Search env c (searxngSearchParams env args q) = (net, Inr result)
    \<and> encode (FormatFloat env) 1 (Results_iface (Results result)) = Inr t
    \<and> payload =
        ''{'' @ newline 1
        @ Join ((if Answers result \<noteq> []
                 then [quote ''answers'' @ '': ''
                         @ bracket ''['' '']'' 1 (map quote (Answers result))]
                 else [])
                @ (if Corrections result \<noteq> []
                   then [quote ''corrections'' @ '': ''
                           @ bracket ''['' '']'' 1 (map quote (Corrections result))]
                   else [])
                @ [quote ''number_of_results'' @ '': '' @ Itoa (NumberOfResults result),
                   quote ''query'' @ '': '' @ quote (RespQuery result),
                   quote ''results'' @ '': '' @ t]
                @ (if Suggestions result \<noteq> []
                   then [quote ''suggestions'' @ '': ''
                           @ bracket ''['' '']'' 1 (map quote (Suggestions result))]
                   else []))
             ('','' @ newline 1)
        @ newline 0 @ ''}''
    \<and> (\<forall>d. newline d = CHR 0x0A # replicate (2 * d) (CHR '' ''))
    \<and> map_of (searxngSearchResponse result) ''query'' = Some (VString (RespQuery result))
    \<and> map_of (searxngSearchResponse result) ''number_of_results'' =
        Some (VInt (NumberOfResults result))
    \<and> map_of (searxngSearchResponse result) ''results'' = Some (Results_iface (Results result))
    \<and> map_of (searxngSearchResponse result) ''answers'' =
        (if Answers result \<noteq> [] then Some (strings_iface (Answers result)) else None)
    \<and> map_of (searxngSearchResponse result) ''suggestions'' =
        (if Suggestions result \<noteq> [] then Some (strings_iface (Suggestions result)) else None)
    \<and> map_of (searxngSearchResponse result) ''corrections'' =
        (if Corrections result \<noteq> [] then Some (strings_iface (Corrections result)) else None)
    \<and> map_of (searxngSearchResponse result) ''infoboxes'' = None
    \<and> fst ` set (searxngSearchResponse result) \<subseteq>
        {''query'', ''number_of_results'', ''results'', ''answers'', ''suggestions'',
         ''corrections''}"
proof -
  from assms obtain q where q: "asString (args ''query'') = Some q"
    by (auto simp: searxngSearchHandler_def split: option.splits)
  then have aq: "args ''query'' = Some (VString q)"
    by (auto simp: asString_def split: option.splits iface.splits)
  from assms q obtain result where
    s: "Search env c (searxngSearchParams env args q) = (net, Inr result)" and
    m: "MarshalIndent (FormatFloat env) (VMap (searxngSearchResponse result)) = Inr payload"
    by (auto simp: searxngSearchHandler_def split: prod.splits sum.splits)
  note m' = m [unfolded MarshalIndent_def encode_response]
  from m' obtain t where
    t: "encode (FormatFloat env) 1 (Results_iface (Results result)) = Inr t"
    by (cases "encode (FormatFloat env) 1 (Results_iface (Results result))") simp_all
  let ?members = "(if Answers result \<noteq> []
                 then [quote ''answers'' @ '': ''
                         @ bracket ''['' '']'' 1 (map quote (Answers result))]
                 else [])
                @ (if Corrections result \<noteq> []
                   then [quote ''corrections'' @ '': ''
                           @ bracket ''['' '']'' 1 (map quote (Corrections result))]
                   else [])
                @ [quote ''number_of_results'' @ '': '' @ Itoa (NumberOfResults result),
                   quote ''query'' @ '': '' @ quote (RespQuery result),
                   quote ''results'' @ '': '' @ t]
                @ (if Suggestions result \<noteq> []
                   then [quote ''suggestions'' @ '': ''
                           @ bracket ''['' '']'' 1 (map quote (Suggestions result))]
                   else [])"
  have ne: "?members \<noteq> []" by simp
  from m' have "payload = bracket ''{'' ''}'' 0 ?members"
    unfolding t by simp
  then have p: "payload = ''{'' @ newline 1 @ Join ?members ('','' @ newline 1) @ newline 0 @ ''}''"
    using bracket_nonempty [OF ne, of "''{''" "''}''" 0] by simp
  have n: "\<forall>d. newline d = CHR 0x0A # replicate (2 * d) (CHR '' '')"
  proof
    fix d
    have "concat (replicate d ''  '') = replicate (2 * d) (CHR '' '')"
      by (induction d) simp_all
    then show "newline d = CHR 0x0A # replicate (2 * d) (CHR '' '')"
      by (simp add: newline_def)
  qed
  show ?thesis
    apply (rule exI [of _ q], rule exI [of _ result], rule exI [of _ t])
    using aq s t p n response_keys [of result] by blast
qed

theorem general_search_payload_witness:
  "searxngSearchHandler (stubEnv ok200) exampleClient catsArguments =
     ([getRequest (catsURL exampleClient)], Inr examplePayload)
   \<and> (\<exists>t. encode (FormatFloat (stubEnv ok200)) 1 (Results_iface (Results exampleResponse)) = Inr t
        \<and> examplePayload =
            ''{'' @ newline 1
            @ Join [quote ''number_of_results'' @ '': '' @ Itoa 1,
                    quote ''query'' @ '': '' @ quote ''cats'',
                    quote ''results'' @ '': '' @ t]
                ('','' @ newline 1)
            @ newline 0 @ ''}'')
   \<and> map_of (searxngSearchResponse exampleResponse) ''answers'' = None
   \<and> map_of (searxngSearchResponse exampleResponse) ''infoboxes'' = None"
proof -
  have h: "searxngSearchHandler (stubEnv ok200) exampleClient catsArguments =
     ([getRequest (catsURL exampleClient)], Inr examplePayload)"
    by code_simp
  from general_search_payload [OF h] obtain q result t where
    s: "Search (stubEnv ok200) exampleClient (searxngSearchParams (stubEnv ok200) catsArguments q)
          = ([getRequest (catsURL exampleClient)], Inr result)" and
    t: "encode (FormatFloat (stubEnv ok200)) 1 (Results_iface (Results result)) = Inr t" and
    p: "examplePayload =
        ''{'' @ newline 1
        @ Join ((if Answers result \<noteq> []
                 then [quote ''answers'' @ '': ''
                         @ bracket ''['' '']'' 1 (map quote (Answers result))]
                 else [])
                @ (if Corrections result \<noteq> []
                   then [quote ''corrections'' @ '': ''
                           @ bracket ''['' '']'' 1 (map quote (Corrections result))]
                   else [])
                @ [quote ''number_of_results'' @ '': '' @ Itoa (NumberOfResults result),
                   quote ''query'' @ '': '' @ quote (RespQuery result),
                   quote ''results'' @ '': '' @ t]
                @ (if Suggestions result \<noteq> []
                   then [quote ''suggestions'' @ '': ''
                           @ bracket ''['' '']'' 1 (map quote (Suggestions result))]
                   else []))
             ('','' @ newline 1)
        @ newline 0 @ ''}''" and
    a: "map_of (searxngSearchResponse result) ''answers'' =
        (if Answers result \<noteq> [] then Some (strings_iface (Answers result)) else None)" and
    i: "map_of (searxngSearchResponse result) ''infoboxes'' = None"
    by blast
  have "snd (Search (stubEnv ok200) exampleClient
              (searxngSearchParams (stubEnv ok200) catsArguments q)) = Inr exampleResponse"
    by (simp add: Search_def NewRequest_def stubEnv_def ok200_def Let_def)
  then have r: "result = exampleResponse" unfolding s by simp
  have f: "Answers exampleResponse = []" "Corrections exampleResponse = []"
    "Suggestions exampleResponse = []" "NumberOfResults exampleResponse = 1"
    "RespQuery exampleResponse = ''cats''"
    by (simp_all add: exampleResponse_def)
  from p have p': "examplePayload =
            ''{'' @ newline 1
            @ Join [quote ''number_of_results'' @ '': '' @ Itoa 1,
                    quote ''query'' @ '': '' @ quote ''cats'',
                    quote ''results'' @ '': '' @ t]
                ('','' @ newline 1)
            @ newline 0 @ ''}''"
    unfolding r f by simp
  from a i have "map_of (searxngSearchResponse exampleResponse) ''answers'' = None"
    "map_of (searxngSearchResponse exampleResponse) ''infoboxes'' = None"
    unfolding r f by simp_all
  with h t p' show ?thesis unfolding r by blast
qed


subsection \<open>The general search: determinism\<close>

lemma filter_key_singleton:
  "distinct (map f xs) \<Longrightarrow> k \<in> set xs \<Longrightarrow> filter (\<lambda>x. f k = f x) xs = [k]"
proof (induction xs)
  case Nil
  then show ?case by simp
next
  case (Cons a xs)
  show ?case
  proof (cases "k = a")
    case True
    have "filter (\<lambda>x. f a = f x) xs = []"
      using Cons.prems(1) by (auto simp: filter_empty_conv)
    with True show ?thesis by simp
  next
    case False
    with Cons.prems have k: "k \<in> set xs" by simp
    have "f a \<notin> f ` set xs" using Cons.prems(1) by simp
    moreover have "f k \<in> f ` set xs" using k by (rule imageI)
    ultimately have "f k \<noteq> f a" by metis
    with Cons k show ?thesis by simp
  qed
qed

lemma sort_key_permutation:
  assumes "mset xs = mset ys" and "distinct (map f ys)"
  shows "sort_key f xs = sort_key f ys"
proof (rule properties_for_sort_key)
  show "mset (sort_key f ys) = mset xs" using assms(1) by simp
next
  show "sorted (map f (sort_key f ys))" by simp
next
  fix k
  assume k: "k \<in> set (sort_key f ys)"
  have "mset (map f xs) = mset (map f ys)" using assms(1) by simp
  then have dx: "distinct (map f xs)"
    using assms(2) mset_eq_imp_distinct_iff by blast
  have "mset (map f (sort_key f ys)) = mset (map f ys)" by simp
  then have ds: "distinct (map f (sort_key f ys))"
    using assms(2) mset_eq_imp_distinct_iff by blast
  have kx: "k \<in> set xs" using k assms(1) mset_eq_setD by fastforce
  show "filter (\<lambda>x. f k = f x) (sort_key f ys) = filter (\<lambda>x. f k = f x) xs"
    using filter_key_singleton [OF ds k] filter_key_singleton [OF dx kx] by simp
qed

lemma built_request:
  "Header_Set ''Accept'' ''application/json''
     (Header_Set ''User-Agent'' ''MCP-SearXNG-Client/1.0''
        \<lparr>ReqMethod = ''GET'', ReqURL = url, ReqHeader = []\<rparr>) = getRequest url"
  by (simp add: Header_Set_def getRequest_def clientHeader_def)

lemma distinct_response_keys: "distinct (map fst (searxngSearchResponse r))"
  by (cases "Answers r = []"; cases "Suggestions r = []"; cases "Corrections r = []";
      simp add: searxngSearchResponse_eq)

lemma distinct_searchValues: "distinct (map fst (searchValues p))"
  unfolding searchValues_eq by (rule distinct_keys)

text \<open>
  Claim C8. Two calls of the general search with the same arguments, against backends
  that answer the request of the call with status 200 and the same body, return the
  same thing, text and requests: the result depends on the backend through that one
  answer only (the two backends may differ on every other request). Nor does the
  order in which the Go runtime runs through a map matter: every arrangement of the
  query values gives the same query string, and every arrangement of the entries of
  the response map the same text.
\<close>

theorem general_search_deterministic:
  assumes "args ''query'' = Some (VString q)"
    and "Do env1 (getRequest (searchRequestURL c (searxngSearchParams env1 args q))) =
           Inr \<lparr>StatusCode = 200, BodyData = body, BodyErr = None\<rparr>"
    and "Do env2 (getRequest (searchRequestURL c (searxngSearchParams env1 args q))) =
           Inr \<lparr>StatusCode = 200, BodyData = body, BodyErr = None\<rparr>"
    and "ParseURL env2 = ParseURL env1"
    and "UnmarshalSearchResponse env2 = UnmarshalSearchResponse env1"
    and "IntOutOfRange env2 = IntOutOfRange env1"
    and "FormatFloat env2 = FormatFloat env1"
  shows "searxngSearchHandler env1 c args = searxngSearchHandler env2 c args
    \<and> (\<forall>v. mset v = mset (searchValues (searxngSearchParams env1 args q)) \<longrightarrow>
          Values_Encode v = Values_Encode (searchValues (searxngSearchParams env1 args q)))
    \<and> (\<forall>result m. mset m = mset (searxngSearchResponse result) \<longrightarrow>
          MarshalIndent (FormatFloat env1) (VMap m) =
          MarshalIndent (FormatFloat env1) (VMap (searxngSearchResponse result)))"
proof -
  have q: "asString (args ''query'') = Some q"
    using assms(1) by (simp add: asString_def)
  have p: "searxngSearchParams env2 args q = searxngSearchParams env1 args q"
    unfolding searxngSearchParams_def assms(6) by (rule refl)
  have s: "Search env2 c (searxngSearchParams env1 args q) =
           Search env1 c (searxngSearchParams env1 args q)"
    by (simp add: Search_def NewRequest_def built_request assms Let_def split: option.splits)
  have 1: "searxngSearchHandler env1 c args = searxngSearchHandler env2 c args"
    by (simp add: searxngSearchHandler_def q p s assms(7))
  have 2: "Values_Encode v = Values_Encode (searchValues (searxngSearchParams env1 args q))"
    if "mset v = mset (searchValues (searxngSearchParams env1 args q))" for v
    using sort_key_permutation [OF that distinct_searchValues]
    by (simp add: Values_Encode_def encodedPairs_def)
  have 3: "MarshalIndent (FormatFloat env1) (VMap m) =
          MarshalIndent (FormatFloat env1) (VMap (searxngSearchResponse result))"
    if "mset m = mset (searxngSearchResponse result)" for m result
    using sort_key_permutation [OF that distinct_response_keys]
    by (simp add: MarshalIndent_def)
  from 1 2 3 show ?thesis by blast
qed

theorem general_search_deterministic_witness:
  "Do otherEnv (getRequest ''http://127.0.0.1:8080/config'') \<noteq>
     Do (stubEnv ok200) (getRequest ''http://127.0.0.1:8080/config'')
   \<and> searxngSearchHandler (stubEnv ok200) exampleClient catsArguments =
       searxngSearchHandler otherEnv exampleClient catsArguments
   \<and> snd (searxngSearchHandler otherEnv exampleClient catsArguments) = Inr examplePayload
   \<and> Values_Encode (rev (searchValues (searxngSearchParams (stubEnv ok200) catsArguments ''cats'')))
       = Values_Encode (searchValues (searxngSearchParams (stubEnv ok200) catsArguments ''cats''))
   \<and> MarshalIndent (FormatFloat (stubEnv ok200)) (VMap (rev (searxngSearchResponse exampleResponse)))
       = MarshalIndent (FormatFloat (stubEnv ok200)) (VMap (searxngSearchResponse exampleResponse))"
proof -
  have h1: "catsArguments ''query'' = Some (VString ''cats'')"
    by (simp add: catsArguments_def)
  have u: "searchRequestURL exampleClient (searxngSearchParams (stubEnv ok200) catsArguments ''cats'')
           = catsURL exampleClient"
    by (rule cats_url)
  have h2: "Do (stubEnv ok200)
              (getRequest (searchRequestURL exampleClient
                 (searxngSearchParams (stubEnv ok200) catsArguments ''cats''))) =
            Inr \<lparr>StatusCode = 200, BodyData = ''{}'', BodyErr = None\<rparr>"
    by (simp add: stubEnv_def ok200_def)
  have h3: "Do otherEnv
              (getRequest (searchRequestURL exampleClient
                 (searxngSearchParams (stubEnv ok200) catsArguments ''cats''))) =
            Inr \<lparr>StatusCode = 200, BodyData = ''{}'', BodyErr = None\<rparr>"
    unfolding u by (simp add: otherEnv_def getRequest_def ok200_def)
  have h4: "ParseURL otherEnv = ParseURL (stubEnv ok200)"
    and h5: "UnmarshalSearchResponse otherEnv = UnmarshalSearchResponse (stubEnv ok200)"
    and h6: "IntOutOfRange otherEnv = IntOutOfRange (stubEnv ok200)"
    and h7: "FormatFloat otherEnv = FormatFloat (stubEnv ok200)"
    by (simp_all add: otherEnv_def)
  note t = general_search_deterministic [where args = catsArguments and q = "''cats''"
      and ?env1.0 = "stubEnv ok200" and ?env2.0 = otherEnv and c = exampleClient
      and body = "''{}''", OF h1 h2 h3 h4 h5 h6 h7]
  have 1: "searxngSearchHandler (stubEnv ok200) exampleClient catsArguments =
       searxngSearchHandler otherEnv exampleClient catsArguments"
    using t by blast
  have e: "snd (searxngSearchHandler (stubEnv ok200) exampleClient catsArguments) = Inr examplePayload"
    by code_simp
  have 2: "Values_Encode (rev (searchValues (searxngSearchParams (stubEnv ok200) catsArguments ''cats'')))
       = Values_Encode (searchValues (searxngSearchParams (stubEnv ok200) catsArguments ''cats''))"
    using t [THEN conjunct2, THEN conjunct1, rule_format,
        of "rev (searchValues (searxngSearchParams (stubEnv ok200) catsArguments ''cats''))"]
    by simp
  have 3: "MarshalIndent (FormatFloat (stubEnv ok200)) (VMap (rev (searxngSearchResponse exampleResponse)))
       = MarshalIndent (FormatFloat (stubEnv ok200)) (VMap (searxngSearchResponse exampleResponse))"
    using t [THEN conjunct2, THEN conjunct2, rule_format,
        of "rev (searxngSearchResponse exampleResponse)" exampleResponse]
    by simp
  have 4: "Do otherEnv (getRequest ''http://127.0.0.1:8080/config'') \<noteq>
     Do (stubEnv ok200) (getRequest ''http://127.0.0.1:8080/config'')"
  proof -
    have "ReqURL (getRequest ''http://127.0.0.1:8080/config'') \<noteq> catsURL exampleClient"
      by code_simp
    then show ?thesis by (simp add: otherEnv_def stubEnv_def)
  qed
  from 1 2 3 4 e show ?thesis by simp
qed


end
